theory Spec2Isabelle
  imports Complex_Main
begin

section \<open>Python values and exceptions\<close>

text \<open>
  The scripts of the repository talk to laboratory instruments through PyVISA and to the
  file system through numpy and pandas. A finite Python float is a real number; the
  arithmetic on floats is exact, except where a result decides what the code does next:
  the product \<open>T * sample_rate\<close> that \<open>int()\<close> truncates is rounded and can overflow to
  infinity (\<open>float_mul\<close> below), and a table read from a file can hold cells that are
  not numbers. An exception is a value of type \<open>exn\<close> and a call that can raise returns
  \<open>exn + 'a\<close> with \<open>Inl\<close> for the raised exception. The string carried by an exception is
  its message (\<open>str(e)\<close>).
\<close>

datatype exn =
    ValueError string
  | RuntimeError string
  | TypeError string
  | OverflowError string
  | VisaError string      \<comment> \<open>\<open>visa.Error\<close> and its subclasses\<close>
  | OtherError string     \<comment> \<open>any other subclass of \<open>Exception\<close>\<close>

subsection \<open>Strings\<close>

text \<open>
  Instrument replies are ASCII (PyVISA decodes with the \<open>ascii\<close> codec). \<open>int(str)\<close>
  accepts surrounding blanks, one sign and decimal digits with single underscores between
  them; \<open>str.strip()\<close> also removes the separators \<open>0x1C\<close> to \<open>0x1F\<close>.
\<close>

definition int_space :: "char \<Rightarrow> bool" where
  "int_space c = (c \<in> set [CHR 0x09, CHR 0x0A, CHR 0x0B, CHR 0x0C, CHR 0x0D, CHR '' ''])"

definition str_space :: "char \<Rightarrow> bool" where
  "str_space c = (int_space c \<or> c \<in> set [CHR 0x1C, CHR 0x1D, CHR 0x1E, CHR 0x1F])"

definition strip_with :: "(char \<Rightarrow> bool) \<Rightarrow> string \<Rightarrow> string" where
  "strip_with p s = rev (dropWhile p (rev (dropWhile p s)))"

definition strip :: "string \<Rightarrow> string" where
  "strip s = strip_with str_space s"

definition is_digit :: "char \<Rightarrow> bool" where
  "is_digit c = (48 \<le> (of_char c :: int) \<and> (of_char c :: int) \<le> 57)"

definition digit_val :: "char \<Rightarrow> int" where
  "digit_val c = of_char c - 48"

fun digits :: "string \<Rightarrow> int \<Rightarrow> int option" where
  "digits [] acc = Some acc"
| "digits (c # cs) acc =
     (if is_digit c then digits cs (10 * acc + digit_val c)
      else if c = CHR ''_'' \<and> cs \<noteq> [] \<and> is_digit (hd cs) then digits cs acc
      else None)"

definition py_nat :: "string \<Rightarrow> int option" where
  "py_nat s = (if s \<noteq> [] \<and> is_digit (hd s) then digits s 0 else None)"

definition py_int :: "string \<Rightarrow> int option" where
  "py_int s =
     (let t = strip_with int_space s in
      if t \<noteq> [] \<and> hd t = CHR ''-'' then map_option uminus (py_nat (tl t))
      else if t \<noteq> [] \<and> hd t = CHR ''+'' then py_nat (tl t)
      else py_nat t)"

definition upper_char :: "char \<Rightarrow> char" where
  "upper_char c = (if 97 \<le> (of_char c :: nat) \<and> (of_char c :: nat) \<le> 122
                   then char_of ((of_char c :: nat) - 32) else c)"

definition upper :: "string \<Rightarrow> string" where
  "upper s = map upper_char s"

text \<open>\<open>str(int)\<close>; \<open>dec_digits\<close> is the decimal numeral of a non-negative integer.\<close>

function dec_digits :: "int \<Rightarrow> string" where
  "dec_digits n =
     (if n < 10 then [char_of (48 + n)]
      else dec_digits (n div 10) @ [char_of (48 + n mod 10)])"
  by pat_completeness auto
termination
  by (relation "measure nat") auto

declare dec_digits.simps [simp del]

definition str_int :: "int \<Rightarrow> string" where
  "str_int i = (if i < 0 then CHR ''-'' # dec_digits (- i) else dec_digits i)"

text \<open>
  Fixed-point formatting, \<open>'%.df' % x\<close> and \<open>f"{x:.df}"\<close>: the value is rounded to \<open>d\<close>
  decimals, exact ties to the even neighbour, and the fraction is padded with zeros.
\<close>

definition round_half_even :: "real \<Rightarrow> int" where
  "round_half_even x =
     (let r = \<lfloor>x\<rfloor>; f = x - of_int r in
      if f < 1/2 then r else if 1/2 < f then r + 1 else if even r then r else r + 1)"

definition zero_pad :: "nat \<Rightarrow> string \<Rightarrow> string" where
  "zero_pad d s = replicate (d - length s) CHR ''0'' @ s"

definition fmt_fixed :: "nat \<Rightarrow> real \<Rightarrow> string" where
  "fmt_fixed d x =
     (let m = round_half_even (\<bar>x\<bar> * 10 ^ d) in
      (if x < 0 then [CHR ''-''] else []) @ dec_digits (m div 10 ^ d) @
      (if d = 0 then [] else CHR ''.'' # zero_pad d (dec_digits (m mod 10 ^ d))))"

text \<open>\<open>sep.join(parts)\<close>.\<close>

fun join :: "string \<Rightarrow> string list \<Rightarrow> string" where
  "join sep [] = []"
| "join sep [s] = s"
| "join sep (s # t # ss) = s @ sep @ join sep (t # ss)"

subsection \<open>numpy\<close>

text \<open>\<open>int(x)\<close> of a float truncates towards zero.\<close>

definition py_trunc :: "real \<Rightarrow> int" where
  "py_trunc x = (if 0 \<le> x then \<lfloor>x\<rfloor> else \<lceil>x\<rceil>)"

text \<open>
  The product of two doubles: the exact product rounded to the nearest double, and
  infinity (\<open>None\<close>) when its magnitude reaches the midpoint between the largest double
  and \<open>2 ^ 1024\<close>. The rounding function is a parameter.
\<close>

definition overflow_threshold :: real where
  "overflow_threshold = 2 ^ 1024 - 2 ^ 970"

definition float_mul :: "(real \<Rightarrow> real) \<Rightarrow> real \<Rightarrow> real \<Rightarrow> real option" where
  "float_mul rnd x y = (if overflow_threshold \<le> \<bar>x * y\<bar> then None else Some (rnd (x * y)))"

text \<open>\<open>int(x)\<close> of a float that may be infinite.\<close>

definition py_int_of_float :: "real option \<Rightarrow> exn + int" where
  "py_int_of_float x =
     (case x of
        None \<Rightarrow> Inl (OverflowError ''cannot convert float infinity to integer'')
      | Some v \<Rightarrow> Inr (py_trunc v))"

text \<open>\<open>f"{x:.0f}"\<close> of a float that may be infinite; \<open>sign\<close> is the sign of the infinity.\<close>

definition fmt_float0 :: "real \<Rightarrow> real option \<Rightarrow> string" where
  "fmt_float0 sign x =
     (case x of
        None \<Rightarrow> (if sign < 0 then ''-inf'' else ''inf'')
      | Some v \<Rightarrow> fmt_fixed 0 v)"

text \<open>\<open>np.linspace(start, stop, num)\<close>; a single sample is \<open>start\<close>.\<close>

definition linspace :: "real \<Rightarrow> real \<Rightarrow> int \<Rightarrow> exn + real list" where
  "linspace start stop num =
     (if num < 0 then Inl (ValueError ''Number of samples must be non-negative.'')
      else Inr (map (\<lambda>i. start + real i * ((stop - start) / real (nat num - 1))) [0..<nat num]))"

text \<open>\<open>np.max\<close> of a one-dimensional array; it raises on an empty one.\<close>

fun amax :: "real list \<Rightarrow> exn + real" where
  "amax [] =
     Inl (ValueError ''zero-size array to reduction operation maximum which has no identity'')"
| "amax (x # xs) = Inr (fold max xs x)"

definition np_mean :: "real list \<Rightarrow> real" where
  "np_mean xs = sum_list xs / real (length xs)"

section \<open>The outside world\<close>

text \<open>
  Every call the scripts make on the PyVISA resource manager, on the opened resource or
  on the file system is one \<open>cmd\<close>. The world keeps the commands issued so far (oldest
  first), the lines printed, how often a clock has been read, and the files written. A
  file holds text, or a table as pandas writes it with \<open>to_csv(index=False)\<close>: the column
  names, each with the numeric values of its column.
\<close>

datatype cmd =
    OpenRM                 \<comment> \<open>\<open>visa.ResourceManager()\<close>\<close>
  | OpenResource string    \<comment> \<open>\<open>rm.open_resource(scope_id)\<close>\<close>
  | SetTimeout nat         \<comment> \<open>\<open>scope.timeout = ...\<close>\<close>
  | Write string           \<comment> \<open>\<open>scope.write(...)\<close>\<close>
  | Query string           \<comment> \<open>\<open>scope.query(...)\<close>\<close>
  | QueryBinary string     \<comment> \<open>\<open>scope.query_binary_values(...)\<close>\<close>
  | Clear                  \<comment> \<open>\<open>scope.clear()\<close>\<close>
  | Close                  \<comment> \<open>\<open>scope.close()\<close>\<close>
  | MakeDirs string        \<comment> \<open>\<open>os.makedirs(path, exist_ok=True)\<close>\<close>
  | OpenFile string string \<comment> \<open>opening the file at a path in a mode\<close>

type_synonym frame = "(string \<times> real list) list"

datatype content = Text string | Csv frame

text \<open>
  What \<open>pd.read_csv\<close> makes of a file: every column has a name and cells, and a cell is a
  number, empty (pandas reads it as \<open>NaN\<close>), or text that is no number.
\<close>

datatype cell = Num real | Blank | Word string

type_synonym table = "(string \<times> cell list) list"

record world =
  sent :: "cmd list"
  stdout :: "string list"
  clock_reads :: nat
  files :: "(string \<times> content) list"

text \<open>
  The laboratory is whatever answers: \<open>query_reply\<close> and \<open>binary_reply\<close> give the answer
  to the last command of a history, \<open>ctl_error\<close> says whether a command without an answer
  raises, and \<open>clock n\<close> is what the \<open>n\<close>-th reading of a clock (\<open>time.perf_counter()\<close>,
  \<open>time.time()\<close>) returns. The remaining fields stand for library calls whose result the
  scripts only pass on: \<open>float(str)\<close>, the text of a float in an f-string,
  \<open>datetime.now().strftime(fmt)\<close>, \<open>os.path.join\<close>, the parser of \<open>pd.read_csv\<close> on a text
  file, the pair (slope, intercept) that the solver inside \<open>np.polyfit(x, y, 1)\<close> returns,
  and \<open>fl\<close>, the rounding of a real number in range to the nearest double.
\<close>

record env =
  query_reply :: "cmd list \<Rightarrow> exn + string"
  binary_reply :: "cmd list \<Rightarrow> exn + nat list"
  ctl_error :: "cmd list \<Rightarrow> exn option"
  clock :: "nat \<Rightarrow> real"
  py_float :: "string \<Rightarrow> real option"
  str_float :: "real \<Rightarrow> string"
  strftime_now :: "string \<Rightarrow> string"
  path_join :: "string \<Rightarrow> string \<Rightarrow> string"
  read_csv_text :: "string \<Rightarrow> exn + table"
  lstsq :: "real list \<Rightarrow> real list \<Rightarrow> real \<times> real"
  fl :: "real \<Rightarrow> real"

text \<open>A Python procedure: it changes the world and returns a value or raises.\<close>

type_synonym 'a io = "world \<Rightarrow> (exn + 'a) \<times> world"

definition ok :: "'a \<Rightarrow> 'a io" where
  "ok a w = (Inr a, w)"

definition raise :: "exn \<Rightarrow> 'a io" where
  "raise e w = (Inl e, w)"

definition and_then :: "'a io \<Rightarrow> ('a \<Rightarrow> 'b io) \<Rightarrow> 'b io" where
  "and_then m f w = (case m w of (Inl e, w') \<Rightarrow> (Inl e, w') | (Inr a, w') \<Rightarrow> f a w')"

definition lift :: "exn + 'a \<Rightarrow> 'a io" where
  "lift r w = (r, w)"

definition checked :: "(world \<Rightarrow> exn option \<times> world) \<Rightarrow> unit io" where
  "checked c w = (case c w of (Some e, w') \<Rightarrow> (Inl e, w') | (None, w') \<Rightarrow> (Inr (), w'))"

fun for_each :: "('a \<Rightarrow> unit io) \<Rightarrow> 'a list \<Rightarrow> unit io" where
  "for_each body [] = ok ()"
| "for_each body (x # xs) = and_then (body x) (\<lambda>_. for_each body xs)"

definition py_print :: "string \<Rightarrow> world \<Rightarrow> world" where
  "py_print s w = w\<lparr>stdout := stdout w @ [s]\<rparr>"

definition say :: "string \<Rightarrow> unit io" where
  "say s w = (Inr (), py_print s w)"

definition issue :: "cmd \<Rightarrow> world \<Rightarrow> world" where
  "issue c w = w\<lparr>sent := sent w @ [c]\<rparr>"

definition control :: "env \<Rightarrow> cmd \<Rightarrow> world \<Rightarrow> exn option \<times> world" where
  "control env c w = (let w' = issue c w in (ctl_error env (sent w'), w'))"

definition scope_write :: "env \<Rightarrow> string \<Rightarrow> world \<Rightarrow> exn option \<times> world" where
  "scope_write env s w = control env (Write s) w"

definition scope_query :: "env \<Rightarrow> string \<Rightarrow> world \<Rightarrow> (exn + string) \<times> world" where
  "scope_query env s w = (let w' = issue (Query s) w in (query_reply env (sent w'), w'))"

definition scope_query_binary :: "env \<Rightarrow> string \<Rightarrow> world \<Rightarrow> (exn + nat list) \<times> world" where
  "scope_query_binary env s w =
     (let w' = issue (QueryBinary s) w in (binary_reply env (sent w'), w'))"

definition perf_counter :: "env \<Rightarrow> world \<Rightarrow> real \<times> world" where
  "perf_counter env w = (clock env (clock_reads w), w\<lparr>clock_reads := Suc (clock_reads w)\<rparr>)"

definition time_sleep :: "real \<Rightarrow> world \<Rightarrow> exn option \<times> world" where
  "time_sleep d w =
     (if d < 0 then (Some (ValueError ''sleep length must be non-negative''), w)
      else (None, w))"

definition file_at :: "world \<Rightarrow> string \<Rightarrow> content option" where
  "file_at w path = map_of (files w) path"

definition store :: "string \<Rightarrow> content \<Rightarrow> world \<Rightarrow> world" where
  "store path c w = w\<lparr>files := (path, c) # filter (\<lambda>(p, _). p \<noteq> path) (files w)\<rparr>"

section \<open>OscilloscopeManager\<close>

record manager =
  scope_id :: string
  read_speed :: "bool option"

subsection \<open>The constructor\<close>

text \<open>
  \<open>except visa.Error as e: print(...); raise\<close>: only a VISA error is reported, every
  exception leaves the constructor.
\<close>

definition init_handler :: "exn \<Rightarrow> world \<Rightarrow> (exn + manager) \<times> world" where
  "init_handler e w =
     (case e of
        VisaError m \<Rightarrow> (Inl e, py_print (''Error al conectar con el osciloscopio: '' @ m) w)
      | _ \<Rightarrow> (Inl e, w))"

definition init :: "env \<Rightarrow> string \<Rightarrow> world \<Rightarrow> (exn + manager) \<times> world" where
  "init env sid w =
     (case control env OpenRM w of
        (Some e, w1) \<Rightarrow> init_handler e w1
      | (None, w1) \<Rightarrow>
     (case control env (OpenResource sid) w1 of
        (Some e, w2) \<Rightarrow> init_handler e w2
      | (None, w2) \<Rightarrow>
     (case control env (SetTimeout 60000) w2 of
        (Some e, w3) \<Rightarrow> init_handler e w3
      | (None, w3) \<Rightarrow>
     (case scope_query env ''*IDN?'' w3 of
        (Inl e, w4) \<Rightarrow> init_handler e w4
      | (Inr idn, w4) \<Rightarrow>
          (Inr \<lparr>scope_id = sid, read_speed = None\<rparr>,
           py_print (''Conectado al osciloscopio: '' @ idn) w4)))))"

subsection \<open>Arming and waiting\<close>

text \<open>After the polling loop of \<open>arm_scope\<close>: \<open>clear()\<close>, \<open>close()\<close>, then the error.\<close>

definition arm_fail :: "env \<Rightarrow> world \<Rightarrow> (exn + bool) \<times> world" where
  "arm_fail env w =
     (case control env Clear w of
        (Some e, w1) \<Rightarrow> (Inl e, w1)
      | (None, w1) \<Rightarrow>
     (case control env Close w1 of
        (Some e, w2) \<Rightarrow> (Inl e, w2)
      | (None, w2) \<Rightarrow> (Inl (RuntimeError ''Oscilloscope failed to arm within timeout''), w2)))"

text \<open>
  The \<open>while\<close> loop of \<open>arm_scope\<close>. It ends when the clock says so; a clock that never
  reaches \<open>end\<close> keeps it running, which is the value \<open>None\<close>. A failing query or a reply
  that is no integer is caught by \<open>except Exception: break\<close>; \<open>time.sleep\<close> is outside the
  \<open>try\<close>.
\<close>

partial_function (option) arm_poll ::
  "env \<Rightarrow> real \<Rightarrow> real \<Rightarrow> world \<Rightarrow> ((exn + bool) \<times> world) option" where
  "arm_poll env end poll w =
     (case perf_counter env w of (now, w1) \<Rightarrow>
        if now < end then
          (case scope_query env '':AER?'' w1 of
             (Inl e, w2) \<Rightarrow> Some (arm_fail env w2)
           | (Inr s, w2) \<Rightarrow>
               (case py_int s of
                  None \<Rightarrow> Some (arm_fail env w2)
                | Some v \<Rightarrow>
                    if v = 1 then Some (Inr True, py_print ''Oscilloscope armed successfully.'' w2)
                    else (case time_sleep poll w2 of
                            (Some e, w3) \<Rightarrow> Some (Inl e, w3)
                          | (None, w3) \<Rightarrow> arm_poll env end poll w3)))
        else Some (arm_fail env w1))"

declare arm_poll.simps [code]

definition arm_scope ::
  "env \<Rightarrow> real \<Rightarrow> real \<Rightarrow> world \<Rightarrow> ((exn + bool) \<times> world) option" where
  "arm_scope env max_acq_wait_sec poll_interval_sec w =
     (case scope_query env '':AER?'' w of
        (Inl e, w1) \<Rightarrow> Some (Inl e, w1)
      | (Inr _, w1) \<Rightarrow>
     (case scope_write env '':SINGLE'' w1 of
        (Some e, w2) \<Rightarrow> Some (Inl e, w2)
      | (None, w2) \<Rightarrow>
     (case perf_counter env w2 of (t0, w3) \<Rightarrow>
        arm_poll env (t0 + max_acq_wait_sec) poll_interval_sec w3)))"

text \<open>
  The body of the \<open>try\<close> in \<open>wait_for_acquisition\<close>, on the four stripped replies and
  the two flags of \<open>ready\<close>: it breaks out of the loop (an \<open>int()\<close> failed), returns
  \<open>True\<close>, or goes on with the flags updated. \<open>and\<close> evaluates \<open>int(oper)\<close> and
  \<open>int(pder)\<close> only as far as needed.
\<close>

datatype outcome = Break | Return | Continue "bool \<times> bool"

definition wait_finish :: "bool \<Rightarrow> bool \<Rightarrow> world \<Rightarrow> outcome \<times> world" where
  "wait_finish r0 r1 w =
     (if r0 \<and> r1 then (Return, py_print ''Success'' w) else (Continue (r0, r1), w))"

definition wait_try ::
  "string \<Rightarrow> string \<Rightarrow> string \<Rightarrow> string \<Rightarrow> bool \<times> bool \<Rightarrow> world \<Rightarrow> outcome \<times> world" where
  "wait_try ter oper rstate pder ready w =
     (case py_int ter of
        None \<Rightarrow> (Break, w)
      | Some t \<Rightarrow>
          (let r0 = (t \<noteq> 0 \<or> fst ready);
               w1 = (if t \<noteq> 0 then py_print ''Trigger Event occurred'' w else w)
           in if upper rstate = ''STOP'' then
                (case py_int oper of
                   None \<Rightarrow> (Break, w1)
                 | Some ov \<Rightarrow>
                     if ov = 2 then
                       (case py_int pder of
                          None \<Rightarrow> (Break, w1)
                        | Some pv \<Rightarrow>
                            if pv = 1
                            then wait_finish r0 True (py_print ''Other conditions met'' w1)
                            else wait_finish r0 (snd ready) w1)
                     else wait_finish r0 (snd ready) w1)
              else wait_finish r0 (snd ready) w1))"

text \<open>
  The \<open>while\<close> loop of \<open>wait_for_acquisition\<close>. The four queries are outside the \<open>try\<close>:
  a failing query leaves the method as an exception. After the loop: \<open>return False\<close>.
\<close>

partial_function (option) wait_poll ::
  "env \<Rightarrow> real \<Rightarrow> real \<Rightarrow> bool \<times> bool \<Rightarrow> world \<Rightarrow> ((exn + bool) \<times> world) option" where
  "wait_poll env end poll ready w =
     (case perf_counter env w of (now, w0) \<Rightarrow>
        if now < end then
          (case scope_query env '':TER?'' w0 of
             (Inl e, w1) \<Rightarrow> Some (Inl e, w1)
           | (Inr ter, w1) \<Rightarrow>
          (case scope_query env '':OPER?'' w1 of
             (Inl e, w2) \<Rightarrow> Some (Inl e, w2)
           | (Inr oper, w2) \<Rightarrow>
          (case scope_query env '':RSTATE?'' w2 of
             (Inl e, w3) \<Rightarrow> Some (Inl e, w3)
           | (Inr rstate, w3) \<Rightarrow>
          (case scope_query env '':PDER?'' w3 of
             (Inl e, w4) \<Rightarrow> Some (Inl e, w4)
           | (Inr pder, w4) \<Rightarrow>
          (case wait_try (strip ter) (strip oper) (strip rstate) (strip pder) ready w4 of
             (Break, w5) \<Rightarrow> Some (Inr False, w5)
           | (Return, w5) \<Rightarrow> Some (Inr True, w5)
           | (Continue ready', w5) \<Rightarrow>
               (case time_sleep poll w5 of
                  (Some e, w6) \<Rightarrow> Some (Inl e, w6)
                | (None, w6) \<Rightarrow> wait_poll env end poll ready' w6))))))
        else Some (Inr False, w0))"

declare wait_poll.simps [code]

definition wait_for_acquisition ::
  "env \<Rightarrow> real \<Rightarrow> real \<Rightarrow> world \<Rightarrow> ((exn + bool) \<times> world) option" where
  "wait_for_acquisition env max_acq_wait_sec poll_interval_sec w =
     (case perf_counter env w of (t0, w1) \<Rightarrow>
        wait_poll env (t0 + max_acq_wait_sec) poll_interval_sec (False, False) w1)"

subsection \<open>Configuration\<close>

definition write_io :: "env \<Rightarrow> string \<Rightarrow> unit io" where
  "write_io env s = checked (scope_write env s)"

text \<open>
  \<open>configure_scope\<close> stores \<open>high_speed\<close> in \<open>read_speed\<close> before it sends anything, so the
  manager is changed even when a later write raises.
\<close>

definition configure_scope ::
  "env \<Rightarrow> manager \<Rightarrow> int list \<Rightarrow> real \<Rightarrow> real \<Rightarrow> bool \<Rightarrow> bool \<Rightarrow> bool \<Rightarrow>
   world \<Rightarrow> manager \<times> (exn + unit) \<times> world" where
  "configure_scope env self data_chs samp_rate timebase_range centered_0 high_speed
     high_impedance w =
     (self\<lparr>read_speed := Some high_speed\<rparr>,
      and_then (say ''configuring the scope settings'') (\<lambda>_.
      and_then (write_io env ''ACQUIRE:MODE HRES'') (\<lambda>_.
      and_then (write_io env (''ACQUIRE:SRATE:ANALOG '' @ str_float env samp_rate)) (\<lambda>_.
      and_then (if \<not> centered_0 then write_io env '':TIMEBASE:REFERENCE LEFT''
                else write_io env ''TIMEBASE:POSITION 0'') (\<lambda>_.
      and_then (write_io env (''TIMEBASE:RANGE '' @ str_float env timebase_range)) (\<lambda>_.
      and_then (if high_impedance
                then for_each (\<lambda>channel.
                       write_io env ('':CHANnel'' @ str_int channel @ '':INPut DC'')) data_chs
                else ok ()) (\<lambda>_.
      and_then (write_io env ''WAVeform:FORMat WORD'') (\<lambda>_.
      say ''scope settings configured''))))))) w)"

subsection \<open>Reading waveforms\<close>

text \<open>
  The pandas calls of the class are parameters: building a frame from one named column,
  assigning a column (which can raise), and the text \<open>to_csv(index=False)\<close> writes.
\<close>

record 'df pandas =
  new_frame :: "string \<Rightarrow> real list \<Rightarrow> 'df"
  set_column :: "'df \<Rightarrow> string \<Rightarrow> real list \<Rightarrow> exn + 'df"
  frame_text :: "'df \<Rightarrow> string"

definition query_float :: "env \<Rightarrow> string \<Rightarrow> real io" where
  "query_float env s =
     and_then (scope_query env s) (\<lambda>r.
       case py_float env r of
         None \<Rightarrow> raise (ValueError (''could not convert string to float: '' @ r))
       | Some x \<Rightarrow> ok x)"

definition query_int :: "env \<Rightarrow> string \<Rightarrow> int io" where
  "query_int env s =
     and_then (scope_query env s) (\<lambda>r.
       case py_int r of
         None \<Rightarrow> raise (ValueError (''invalid literal for int() with base 10: '' @ r))
       | Some n \<Rightarrow> ok n)"

text \<open>
  The time axis, read once, when \<open>collected_data\<close> is still \<open>None\<close>; the three queries are
  spelled as the calling method spells them.
\<close>

definition time_frame :: "'df pandas \<Rightarrow> env \<Rightarrow> string \<Rightarrow> string \<Rightarrow> string \<Rightarrow> 'df io" where
  "time_frame pd env xinc xorg points =
     and_then (say ''collecting time data'') (\<lambda>_.
     and_then (query_float env xinc) (\<lambda>x_incr.
     and_then (query_float env xorg) (\<lambda>x_orig.
     and_then (query_int env points) (\<lambda>num_points.
     and_then (lift (linspace x_orig (x_orig + x_incr * (of_int num_points - 1)) num_points))
       (\<lambda>time_data. ok (new_frame pd ''Time (s)'' time_data))))))"

definition add_channel ::
  "'df pandas \<Rightarrow> env \<Rightarrow> string \<Rightarrow> string \<Rightarrow> string \<Rightarrow> int \<Rightarrow> real list \<Rightarrow> 'df option \<Rightarrow> 'df io" where
  "add_channel pd env xinc xorg points channel y_data collected_data =
     (if length y_data = 0
      then raise (ValueError (''No data collected from channel '' @ str_int channel @ ''.''))
      else and_then (case collected_data of
                       None \<Rightarrow> time_frame pd env xinc xorg points
                     | Some df \<Rightarrow> ok df) (\<lambda>df.
           lift (set_column pd df (''Channel '' @ str_int channel @ '' Voltage (V)'') y_data)))"

fun read_slow_channels ::
  "'df pandas \<Rightarrow> env \<Rightarrow> int list \<Rightarrow> 'df option \<Rightarrow> 'df option io" where
  "read_slow_channels pd env [] collected_data = ok collected_data"
| "read_slow_channels pd env (channel # channels) collected_data =
     and_then (write_io env (''WAVEFORM:SOURCE CHANNEL'' @ str_int channel)) (\<lambda>_.
     and_then (say (''Collecting data from channel '' @ str_int channel @ ''...'')) (\<lambda>_.
     and_then (scope_query env ''SYSTem:ERRor?'') (\<lambda>errors.
     and_then (say (''Errors: '' @ strip errors)) (\<lambda>_.
     and_then (scope_query env ''*OPC?'') (\<lambda>opc.
     if strip opc \<noteq> ''1''
     then raise (RuntimeError
            (''Operation did not complete successfully. OPC returned: '' @ strip opc))
     else
     and_then (query_float env ''WAVeform:YINCrement?'') (\<lambda>y_incr.
     and_then (query_float env ''WAVeform:YORigin?'') (\<lambda>y_orig.
     and_then (write_io env '':WAVeform:STReaming OFF'') (\<lambda>_.
     and_then (scope_query_binary env ''WAVeform:DATA?'') (\<lambda>raw.
     and_then (add_channel pd env ''WAVeform:XINCrement?'' ''WAVeform:XORigin?''
                 ''WAVeform:POINts?'' channel (map (\<lambda>d. real d * y_incr + y_orig) raw)
                 collected_data) (\<lambda>df.
     read_slow_channels pd env channels (Some df)))))))))))"

definition read_slow_return_data ::
  "'df pandas \<Rightarrow> env \<Rightarrow> manager \<Rightarrow> int list \<Rightarrow> 'df option io" where
  "read_slow_return_data pd env self channels =
     (case read_speed self of
        None \<Rightarrow> raise (ValueError ''Scope read speed not set. Please configure the scope first.'')
      | Some high \<Rightarrow>
          and_then (if high then say ''Warning: Scope is set to high speed.'' else ok ()) (\<lambda>_.
          and_then (write_io env ''WAVEFORM:BYTEORDER LSBFIRST'') (\<lambda>_.
          read_slow_channels pd env channels None)))"

text \<open>
  \<open>save_data\<close>: the file name is made of the window, the time of day and the given name,
  under \<open>data/<date>\<close>. A frame that is \<open>None\<close> has no \<open>to_csv\<close>.
\<close>

definition save_data :: "'df pandas \<Rightarrow> env \<Rightarrow> 'df option \<Rightarrow> string \<Rightarrow> int \<Rightarrow> string io" where
  "save_data pd env dataframe filename window =
     (let current_date = strftime_now env ''%Y-%m-%d'';
          current_time = strftime_now env ''%H-%M-%S'';
          directory = path_join env ''data'' current_date;
          full_name = path_join env directory
                        (str_int window @ ''_'' @ current_time @ ''_'' @ filename)
      in and_then (checked (control env (MakeDirs directory))) (\<lambda>_.
         case dataframe of
           None \<Rightarrow> raise (OtherError ''NoneType object has no attribute to_csv'')
         | Some df \<Rightarrow>
             and_then (checked (control env (OpenFile full_name ''w''))) (\<lambda>_.
             and_then (\<lambda>w. (Inr (), store full_name (Text (frame_text pd df)) w)) (\<lambda>_.
             and_then (say (''Data saved to '' @ full_name)) (\<lambda>_.
             ok full_name)))))"

fun acquire_slow_channels ::
  "'df pandas \<Rightarrow> env \<Rightarrow> int list \<Rightarrow> 'df option \<Rightarrow> 'df option io" where
  "acquire_slow_channels pd env [] collected_data = ok collected_data"
| "acquire_slow_channels pd env (channel # channels) collected_data =
     and_then (write_io env ''WAVEFORM:BYTEORDER LSBFIRST'') (\<lambda>_.
     and_then (write_io env (''WAVEFORM:SOURCE CHANNEL'' @ str_int channel)) (\<lambda>_.
     and_then (say (''Collecting data from channel '' @ str_int channel @ ''...'')) (\<lambda>_.
     and_then (query_float env ''WAVEFORM:YINCREMENT?'') (\<lambda>y_incr.
     and_then (query_float env ''WAVEFORM:YORIGIN?'') (\<lambda>y_orig.
     and_then (scope_query_binary env ''WAVEFORM:DATA?'') (\<lambda>raw.
     and_then (add_channel pd env ''WAVEFORM:XINCREMENT?'' ''WAVEFORM:XORIGIN?''
                 ''WAVEFORM:POINTS?'' channel (map (\<lambda>d. real d * y_incr + y_orig) raw)
                 collected_data) (\<lambda>df.
     acquire_slow_channels pd env channels (Some df))))))))"

definition acquire_slow_save_data ::
  "'df pandas \<Rightarrow> env \<Rightarrow> manager \<Rightarrow> int list \<Rightarrow> int \<Rightarrow> string io" where
  "acquire_slow_save_data pd env self channels window =
     (case read_speed self of
        None \<Rightarrow> raise (ValueError ''Scope read speed not set. Please configure the scope first.'')
      | Some high \<Rightarrow>
          and_then (if high
                    then say (''Warning: Scope is set to high speed. '' @
                              ''Consider using acquire_slow_return_data() instead.'')
                    else ok ()) (\<lambda>_.
          and_then (acquire_slow_channels pd env channels None) (\<lambda>collected_data.
          save_data pd env collected_data
            (''channels_'' @ join ''_'' (map str_int channels) @ ''_data'') window)))"

section \<open>STIRAP pulse shapes\<close>

definition stokes2 :: "real \<Rightarrow> real \<Rightarrow> real" where
  "stokes2 t T =
     (let a = 10; n = 4; c = T / 3 in
      exp (- (((t - T / 2) / c) ^ (2 * n))) *
      cos (pi / 2 * (1 / (1 + exp ((- a * (t - T / 2)) / T)))))"

definition pump2 :: "real \<Rightarrow> real \<Rightarrow> real" where
  "pump2 t T =
     (let a = 10; n = 4; c = T / 3 in
      exp (- (((t - T / 2) / c) ^ (2 * n))) *
      sin (pi / 2 * (1 / (1 + exp ((- a * (t - T / 2)) / T)))))"

subsection \<open>Writing one envelope\<close>

text \<open>The loop of \<open>export_to_csv\<close> that fills \<open>rescaled_arr\<close>.\<close>

definition rescale :: "real list \<Rightarrow> real list" where
  "rescale array = map (\<lambda>el. if \<bar>el\<bar> < 1 / 10 ^ 9 then 0 else el) array"

text \<open>
  \<open>np.savetxt(full_path, rescaled_arr, delimiter=',', newline=',', fmt='%.10f')\<close>: every
  element is one row, written in the format and followed by the \<open>newline\<close> string.
\<close>

definition savetxt :: "env \<Rightarrow> string \<Rightarrow> real list \<Rightarrow> unit io" where
  "savetxt env full_path arr =
     and_then (checked (control env (OpenFile full_path ''w''))) (\<lambda>_.
     (\<lambda>w. (Inr (), store full_path (Text (concat (map (\<lambda>v. fmt_fixed 10 v @ '','') arr))) w)))"

text \<open>
  The \<open>r+\<close> block: seek to the end, one character back (a negative position raises
  \<open>ValueError\<close>), and cut the last character when it is a comma.
\<close>

definition remove_trailing_comma :: "env \<Rightarrow> string \<Rightarrow> unit io" where
  "remove_trailing_comma env full_path =
     and_then (checked (control env (OpenFile full_path ''r+''))) (\<lambda>_. (\<lambda>w.
       case file_at w full_path of
         Some (Text s) \<Rightarrow>
           if length s = 0 then (Inl (ValueError ''negative seek position -1''), w)
           else if last s = CHR '','' then (Inr (), store full_path (Text (butlast s)) w)
           else (Inr (), w)
       | _ \<Rightarrow> (Inl (OtherError ''not a text file''), w)))"

definition append_newline :: "env \<Rightarrow> string \<Rightarrow> unit io" where
  "append_newline env full_path =
     and_then (checked (control env (OpenFile full_path ''a''))) (\<lambda>_. (\<lambda>w.
       case file_at w full_path of
         Some (Text s) \<Rightarrow> (Inr (), store full_path (Text (s @ [CHR 0x0A])) w)
       | None \<Rightarrow> (Inr (), store full_path (Text [CHR 0x0A]) w)
       | _ \<Rightarrow> (Inl (OtherError ''not a text file''), w)))"

text \<open>
  \<open>export_to_csv\<close> never raises: \<open>except Exception as e\<close> prints the error and the
  function returns.
\<close>

definition exn_text :: "exn \<Rightarrow> string" where
  "exn_text e = (case e of ValueError m \<Rightarrow> m | RuntimeError m \<Rightarrow> m | TypeError m \<Rightarrow> m
                 | OverflowError m \<Rightarrow> m | VisaError m \<Rightarrow> m | OtherError m \<Rightarrow> m)"

definition export_to_csv :: "env \<Rightarrow> real list \<Rightarrow> string \<Rightarrow> string \<Rightarrow> world \<Rightarrow> world" where
  "export_to_csv env array filepath filename w =
     (let full_path = filepath @ ''/'' @ filename in
      case and_then (savetxt env full_path (rescale array)) (\<lambda>_.
           and_then (remove_trailing_comma env full_path) (\<lambda>_.
           and_then (append_newline env full_path) (\<lambda>_.
           say (''Data successfully exported to '' @ full_path)))) w of
        (Inr _, w') \<Rightarrow> w'
      | (Inl e, w') \<Rightarrow>
          py_print (''Error exporting data to '' @ full_path @ '': '' @ exn_text e) w')"

subsection \<open>Generating the two envelopes\<close>

text \<open>
  \<open>maxP = np.max(np.abs(Omega_P)) if np.max(np.abs(Omega_P)) != 0 else 1.0\<close> and
  \<open>Omega_P_norm = Omega_P / maxP\<close>.
\<close>

definition normalize :: "real list \<Rightarrow> exn + real list" where
  "normalize Omega =
     (case amax (map abs Omega) of
        Inl e \<Rightarrow> Inl e
      | Inr m \<Rightarrow> Inr (map (\<lambda>x. x / (if m \<noteq> 0 then m else 1)) Omega))"

definition generate_rabi :: "env \<Rightarrow> real \<Rightarrow> string \<Rightarrow> real \<Rightarrow> string \<Rightarrow> string io" where
  "generate_rabi env T shape sample_rate output_dir =
     and_then (lift (py_int_of_float (float_mul (fl env) T sample_rate))) (\<lambda>N.
     and_then (lift (linspace 0 T N)) (\<lambda>t.
     if shape = ''standard'' then
       (let Omega_S = map (\<lambda>ti. stokes2 ti T) t;
            Omega_P = map (\<lambda>ti. pump2 ti T) t
        in and_then (lift (normalize Omega_P)) (\<lambda>Omega_P_norm.
           and_then (lift (normalize Omega_S)) (\<lambda>Omega_S_norm.
           (let filename_prefix =
                  shape @ ''_'' @ fmt_float0 T (float_mul (fl env) T 1000) @ ''ns'' in
            and_then (\<lambda>w. (Inr (),
                export_to_csv env Omega_P_norm output_dir (filename_prefix @ ''_pump.csv'') w))
              (\<lambda>_.
            and_then (\<lambda>w. (Inr (),
                export_to_csv env Omega_S_norm output_dir (filename_prefix @ ''_stokes.csv'') w))
              (\<lambda>_.
            ok filename_prefix))))))
     else raise (ValueError (''Unsupported shape for STIRAP pulses: '' @ shape))))"

section \<open>Flip-arm calibration\<close>

subsection \<open>The measurement loop\<close>

text \<open>
  \<open>voltages\<close> is any Python iterable. A sequence (list, array) yields its elements on
  every \<open>for\<close>; an iterator (generator) yields each element once and is empty afterwards.
\<close>

datatype 'a iterable = Sequence "'a list" | Iterator "'a list"

fun iterate :: "'a iterable \<Rightarrow> 'a list \<times> 'a iterable" where
  "iterate (Sequence xs) = (xs, Sequence xs)"
| "iterate (Iterator xs) = (xs, Iterator [])"

text \<open>The four callables handed to \<open>measure_loop\<close>.\<close>

record rig =
  set_voltage :: "real \<Rightarrow> unit io"
  read_power_flip :: "real io"
  flip :: "string \<Rightarrow> unit io"
  read_power_target :: "real io"

definition time_time :: "env \<Rightarrow> real io" where
  "time_time env w = (case perf_counter env w of (ts, w') \<Rightarrow> (Inr ts, w'))"

text \<open>One row of \<open>data\<close>: \<open>[v, p1, p2, ts]\<close>.\<close>

type_synonym measurement = "real \<times> real \<times> real \<times> real"

text \<open>The inner loop, \<open>for v in voltages\<close>, appending to \<open>data\<close>.\<close>

fun sweep :: "env \<Rightarrow> rig \<Rightarrow> real \<Rightarrow> real list \<Rightarrow> measurement list \<Rightarrow> measurement list io" where
  "sweep env hw delay [] data = ok data"
| "sweep env hw delay (v # vs) data =
     and_then (say (''Setting voltage to '' @ fmt_fixed 3 v @ '' V'')) (\<lambda>_.
     and_then (set_voltage hw v) (\<lambda>_.
     and_then (flip hw ''up'') (\<lambda>_.
     and_then (checked (time_sleep delay)) (\<lambda>_.
     and_then (read_power_flip hw) (\<lambda>p1.
     and_then (flip hw ''down'') (\<lambda>_.
     and_then (checked (time_sleep delay)) (\<lambda>_.
     and_then (read_power_target hw) (\<lambda>p2.
     and_then (time_time env) (\<lambda>ts.
     sweep env hw delay vs (data @ [(v, p1, p2, ts)]))))))))))"

text \<open>The outer loop, \<open>for _ in range(repeats)\<close>; the iterable is the same object each time.\<close>

fun sweeps ::
  "env \<Rightarrow> rig \<Rightarrow> real \<Rightarrow> nat \<Rightarrow> real iterable \<Rightarrow> measurement list \<Rightarrow> measurement list io" where
  "sweeps env hw delay 0 voltages data = ok data"
| "sweeps env hw delay (Suc k) voltages data =
     (case iterate voltages of (vs, voltages') \<Rightarrow>
        and_then (sweep env hw delay vs data) (\<lambda>data'.
        sweeps env hw delay k voltages' data'))"

text \<open>\<open>pd.DataFrame(data, columns=header)\<close>.\<close>

definition measurement_frame :: "measurement list \<Rightarrow> frame" where
  "measurement_frame data =
     [(''voltage'', map (\<lambda>(v, p1, p2, ts). v) data),
      (''power_flip'', map (\<lambda>(v, p1, p2, ts). p1) data),
      (''power_target'', map (\<lambda>(v, p1, p2, ts). p2) data),
      (''timestamp'', map (\<lambda>(v, p1, p2, ts). ts) data)]"

definition measure_loop ::
  "env \<Rightarrow> string \<Rightarrow> rig \<Rightarrow> real iterable \<Rightarrow> int \<Rightarrow> real \<Rightarrow> unit io" where
  "measure_loop env output_csv hw voltages repeats delay =
     and_then (sweeps env hw delay (nat repeats) voltages []) (\<lambda>data.
     and_then (checked (control env (OpenFile output_csv ''w''))) (\<lambda>_.
     and_then (\<lambda>w. (Inr (), store output_csv (Csv (measurement_frame data)) w)) (\<lambda>_.
     say (''Saved '' @ str_int (int (length data)) @ '' measurements to '' @ output_csv))))"

subsection \<open>Fit and interpolate\<close>

text \<open>
  \<open>pd.read_csv(calib_csv)\<close>: a missing file raises, a text file goes to the parser, and a
  table written by \<open>to_csv\<close> is read back with numbers in every cell.
\<close>

definition table_of_frame :: "frame \<Rightarrow> table" where
  "table_of_frame df = map (\<lambda>(name, vs). (name, map Num vs)) df"

definition read_csv :: "env \<Rightarrow> string \<Rightarrow> table io" where
  "read_csv env path =
     and_then (checked (control env (OpenFile path ''r''))) (\<lambda>_. (\<lambda>w.
       case file_at w path of
         None \<Rightarrow> (Inl (OtherError ''FileNotFoundError''), w)
       | Some (Csv df) \<Rightarrow> (Inr (table_of_frame df), w)
       | Some (Text s) \<Rightarrow> (read_csv_text env s, w)))"

text \<open>
  Without both a \<open>power1\<close> and a \<open>power2\<close> column the first three columns are taken and
  renamed; assigning three names to fewer columns raises.
\<close>

definition power_columns :: "table \<Rightarrow> exn + table" where
  "power_columns df =
     (if ''power1'' \<notin> set (map fst df) \<or> ''power2'' \<notin> set (map fst df) then
        (let df3 = take 3 df in
         if length df3 \<noteq> 3
         then Inl (ValueError ''Length mismatch: Expected axis has fewer than 3 elements'')
         else Inr (zip [''voltage'', ''power1'', ''power2''] (map snd df3)))
      else Inr df)"

definition column :: "table \<Rightarrow> string \<Rightarrow> exn + cell list" where
  "column df name = (case map_of df name of None \<Rightarrow> Inl (OtherError ''KeyError'') | Some xs \<Rightarrow> Inr xs)"

text \<open>
  \<open>.values.astype(float)\<close>: text that is no number raises \<open>ValueError\<close>, an empty cell
  becomes \<open>NaN\<close>, here \<open>None\<close>.
\<close>

fun astype_float :: "cell list \<Rightarrow> exn + real option list" where
  "astype_float [] = Inr []"
| "astype_float (Word s # cs) = Inl (ValueError (''could not convert string to float: '' @ s))"
| "astype_float (Num v # cs) =
     (case astype_float cs of Inl e \<Rightarrow> Inl e | Inr vs \<Rightarrow> Inr (Some v # vs))"
| "astype_float (Blank # cs) =
     (case astype_float cs of Inl e \<Rightarrow> Inl e | Inr vs \<Rightarrow> Inr (None # vs))"

text \<open>
  \<open>np.polyfit(x, y, 1)\<close> checks its arguments before it solves the least-squares problem,
  and the solver does not converge on an array that holds a \<open>NaN\<close>.
\<close>

definition finite_array :: "real option list \<Rightarrow> exn + real list" where
  "finite_array x =
     (case those x of
        None \<Rightarrow> Inl (OtherError ''LinAlgError: SVD did not converge in Linear Least Squares'')
      | Some xs \<Rightarrow> Inr xs)"

definition polyfit1 :: "env \<Rightarrow> real option list \<Rightarrow> real option list \<Rightarrow> exn + real \<times> real" where
  "polyfit1 env x y =
     (if length x = 0 then Inl (TypeError ''expected non-empty vector for x'')
      else if length x \<noteq> length y then Inl (TypeError ''expected x and y to have same length'')
      else case finite_array x of
             Inl e \<Rightarrow> Inl e
           | Inr xs \<Rightarrow> (case finite_array y of
                          Inl e \<Rightarrow> Inl e
                        | Inr ys \<Rightarrow> Inr (lstsq env xs ys)))"

datatype pyval = PyFloat real | PyNaN | PyInt int

text \<open>
  Once \<open>np.polyfit\<close> has returned, \<open>x\<close> and \<open>y\<close> hold no \<open>NaN\<close>: the two \<open>finite_array\<close>
  steps after it only name their values and cannot raise.
\<close>

definition fit_and_interpolate ::
  "env \<Rightarrow> string \<Rightarrow> string option \<Rightarrow> ((real \<Rightarrow> real) \<times> (string \<times> pyval) list) io" where
  "fit_and_interpolate env calib_csv out_png =
     and_then (read_csv env calib_csv) (\<lambda>df0.
     and_then (lift (power_columns df0)) (\<lambda>df.
     and_then (lift (column df ''power1'')) (\<lambda>x_cells.
     and_then (lift (astype_float x_cells)) (\<lambda>x_nan.
     and_then (lift (column df ''power2'')) (\<lambda>y_cells.
     and_then (lift (astype_float y_cells)) (\<lambda>y_nan.
     and_then (lift (polyfit1 env x_nan y_nan)) (\<lambda>(a, b).
     and_then (lift (finite_array x_nan)) (\<lambda>x.
     and_then (lift (finite_array y_nan)) (\<lambda>y.
       (let y_pred = map (\<lambda>xi. a * xi + b) x;
            residuals = map2 (\<lambda>yi pi. yi - pi) y y_pred;
            ss_res = sum_list (map (\<lambda>r. r ^ 2) residuals);
            ss_tot = sum_list (map (\<lambda>yi. (yi - np_mean y) ^ 2) y);
            r2 = (if ss_tot \<noteq> 0 then PyFloat (1 - ss_res / ss_tot) else PyNaN);
            rmse = sqrt (np_mean (map (\<lambda>r. r ^ 2) residuals));
            predict = (\<lambda>p1. a * p1 + b);
            fit_info = [(''a'', PyFloat a), (''b'', PyFloat b), (''r2'', r2),
                        (''rmse'', PyFloat rmse), (''n'', PyInt (int (length x)))]
        in and_then (case out_png of
                       None \<Rightarrow> ok ()
                     | Some png \<Rightarrow>
                         if png = [] then ok ()
                         else checked (control env (OpenFile png ''wb''))) (\<lambda>_.
           ok (predict, fit_info))))))))))))"

section \<open>Properties used in the statements\<close>

text \<open>No poll issued after the history \<open>base\<close> reads the armed event.\<close>

definition never_armed :: "env \<Rightarrow> cmd list \<Rightarrow> bool" where
  "never_armed env base =
     (\<forall>h s. query_reply env (base @ h @ [Query '':AER?'']) = Inr s \<longrightarrow> py_int s \<noteq> Some 1)"

text \<open>The error \<open>arm_scope\<close> raises after its loop.\<close>

definition arm_error :: exn where
  "arm_error = RuntimeError ''Oscilloscope failed to arm within timeout''"

text \<open>The second condition of the \<open>try\<close> in \<open>wait_for_acquisition\<close>, on stripped replies.\<close>

definition others_met :: "string \<Rightarrow> string \<Rightarrow> string \<Rightarrow> bool" where
  "others_met oper rstate pder =
     (upper rstate = ''STOP'' \<and> py_int oper = Some 2 \<and> py_int pder = Some 1)"

text \<open>
  After the history \<open>base\<close> the two flags of \<open>ready\<close> can never both be set: either no
  trigger event is pending and no poll ever reads one, or the second flag is unset and no
  poll ever finds the second condition met. A poll sends its four queries in a row.
\<close>

definition never_success :: "env \<Rightarrow> cmd list \<Rightarrow> bool \<times> bool \<Rightarrow> bool" where
  "never_success env base ready =
     ((\<not> fst ready \<and>
       (\<forall>h s. query_reply env (base @ h @ [Query '':TER?'']) = Inr s \<longrightarrow>
          py_int (strip s) = None \<or> py_int (strip s) = Some 0))
    \<or> (\<not> snd ready \<and>
       (\<forall>h oper rstate pder.
          query_reply env (base @ h @ [Query '':TER?'', Query '':OPER?'']) = Inr oper \<longrightarrow>
          query_reply env (base @ h @ [Query '':TER?'', Query '':OPER?'', Query '':RSTATE?''])
            = Inr rstate \<longrightarrow>
          query_reply env (base @ h @ [Query '':TER?'', Query '':OPER?'', Query '':RSTATE?'',
            Query '':PDER?'']) = Inr pder \<longrightarrow>
          \<not> others_met (strip oper) (strip rstate) (strip pder))))"

text \<open>Every query is answered, and no other command raises.\<close>

definition always_answers :: "env \<Rightarrow> bool" where
  "always_answers env = (\<forall>h. \<exists>s. query_reply env h = Inr s)"

definition never_fails :: "env \<Rightarrow> bool" where
  "never_fails env = (\<forall>h. ctl_error env h = None)"

text \<open>
  An envelope \<open>A\<close> is the normalised form of \<open>Omega\<close>: every element of \<open>Omega\<close> divided
  by the largest absolute value of \<open>Omega\<close>, so that the largest absolute value of \<open>A\<close> is
  exactly one; or \<open>Omega\<close> is zero everywhere and \<open>A\<close> is \<open>Omega\<close> itself.
\<close>

definition normalized_from :: "real list \<Rightarrow> real list \<Rightarrow> bool" where
  "normalized_from Omega A =
     (if \<forall>x \<in> set Omega. x = 0 then A = Omega
      else A = map (\<lambda>x. x / Max (abs ` set Omega)) Omega \<and> Max (abs ` set A) = 1)"

text \<open>What is left of that in the array \<open>B\<close> that reaches the file.\<close>

definition written_peak :: "real list \<Rightarrow> real list \<Rightarrow> bool" where
  "written_peak Omega B =
     (if \<forall>x \<in> set Omega. x = 0 then B = Omega else Max (abs ` set B) = 1)"

text \<open>
  The sum of squared residuals of a line on the data, and a solver that returns a line
  of least squares on \<open>x\<close> and \<open>y\<close>, as exact arithmetic would.
\<close>

definition squared_error :: "real list \<Rightarrow> real list \<Rightarrow> real \<times> real \<Rightarrow> real" where
  "squared_error x y ab = sum_list (map2 (\<lambda>xi yi. (yi - (fst ab * xi + snd ab)) ^ 2) x y)"


text \<open>
  Every finite double is an integer divided by a power of two. Every cell of a table is
  a number.
\<close>

definition dyadic :: "real \<Rightarrow> bool" where
  "dyadic x = (\<exists>(m::int) (k::nat). x = of_int m / 2 ^ k)"


text \<open>A rig whose four callables always return.\<close>

definition steady :: "rig \<Rightarrow> bool" where
  "steady hw =
     ((\<forall>v w. \<exists>w'. set_voltage hw v w = (Inr (), w'))
    \<and> (\<forall>pos w. \<exists>w'. flip hw pos w = (Inr (), w'))
    \<and> (\<forall>w. \<exists>p w'. read_power_flip hw w = (Inr p, w'))
    \<and> (\<forall>w. \<exists>p w'. read_power_target hw w = (Inr p, w')))"

section \<open>Concrete laboratories\<close>

text \<open>
  The inputs at which the theorems are instantiated: an instrument that answers \<open>0\<close> to
  every query and never fails, with a clock that advances half a second per reading; the
  same with a resource that cannot be opened; an empty world; a rig with constant
  readings; a stand-in for pandas that keeps the column names; a manager as the
  constructor leaves it; a solver that answers the line \<open>y = 2 x + 1\<close>; a solver that
  answers the double nearest to one third as the slope, with a calibration file on the
  line \<open>y = x / 3\<close>; and a world with one calibration file on the line \<open>y = 2 x + 1\<close>.
\<close>

definition quiet_lab :: env where
  "quiet_lab =
     \<lparr>query_reply = (\<lambda>h. Inr ''0''),
      binary_reply = (\<lambda>h. Inr []),
      ctl_error = (\<lambda>h. None),
      clock = (\<lambda>n. real n / 2),
      py_float = (\<lambda>s. None),
      str_float = (\<lambda>x. fmt_fixed 1 x),
      strftime_now = (\<lambda>f. f),
      path_join = (\<lambda>a b. a @ ''/'' @ b),
      read_csv_text = (\<lambda>s. Inl (OtherError ''EmptyDataError'')),
      lstsq = (\<lambda>x y. (0, 0)),
      fl = (\<lambda>x. x)\<rparr>"

definition dead_lab :: env where
  "dead_lab =
     quiet_lab\<lparr>ctl_error :=
       (\<lambda>h. if h = [OpenRM] then None else Some (VisaError ''VI_ERROR_RSRC_NFOUND''))\<rparr>"

definition fresh :: world where
  "fresh = \<lparr>sent = [], stdout = [], clock_reads = 0, files = []\<rparr>"

definition bench :: rig where
  "bench = \<lparr>set_voltage = (\<lambda>v. ok ()), read_power_flip = ok 2,
            flip = (\<lambda>pos. ok ()), read_power_target = ok 3\<rparr>"

definition text_frames :: "string pandas" where
  "text_frames =
     \<lparr>new_frame = (\<lambda>name vals. name),
      set_column = (\<lambda>df name vals. Inr (df @ '','' @ name)),
      frame_text = (\<lambda>df. df)\<rparr>"

definition unconfigured :: manager where
  "unconfigured = \<lparr>scope_id = ''USB0::1'', read_speed = None\<rparr>"





section \<open>Basic facts about the world\<close>

lemma sent_issue [simp]: "sent (issue c w) = sent w @ [c]"
  and clock_reads_issue [simp]: "clock_reads (issue c w) = clock_reads w"
  and stdout_issue [simp]: "stdout (issue c w) = stdout w"
  and files_issue [simp]: "files (issue c w) = files w"
  by (simp_all add: issue_def)

lemma scope_query_eq:
  "scope_query env s w = (query_reply env (sent w @ [Query s]), issue (Query s) w)"
  by (simp add: scope_query_def Let_def)

lemma control_eq: "control env c w = (ctl_error env (sent w @ [c]), issue c w)"
  by (simp add: control_def Let_def)

lemma perf_counter_eq:
  "perf_counter env w = (clock env (clock_reads w), w\<lparr>clock_reads := Suc (clock_reads w)\<rparr>)"
  by (simp add: perf_counter_def)

section \<open>Connection failures\<close>

text \<open>
  Claim C7. When opening the VISA resource raises a \<open>visa.Error\<close>, the constructor prints
  one diagnostic line and raises the same exception again: no manager object is
  returned, and \<open>open_resource\<close> is the last command issued, so no other connection is
  tried.
\<close>

theorem init_open_failure_reported:
  assumes "ctl_error env (sent w @ [OpenRM]) = None"
    and "ctl_error env (sent w @ [OpenRM, OpenResource sid]) = Some (VisaError m)"
  shows "init env sid w =
           (Inl (VisaError m),
            w\<lparr>sent := sent w @ [OpenRM, OpenResource sid],
              stdout := stdout w @ [''Error al conectar con el osciloscopio: '' @ m]\<rparr>)"
  using assms
  by (simp add: init_def control_def issue_def init_handler_def py_print_def)

theorem init_open_failure_reported_witness:
  "init dead_lab ''USB0::1'' fresh =
     (Inl (VisaError ''VI_ERROR_RSRC_NFOUND''),
      \<lparr>sent = [OpenRM, OpenResource ''USB0::1''],
       stdout = [''Error al conectar con el osciloscopio: VI_ERROR_RSRC_NFOUND''],
       clock_reads = 0, files = []\<rparr>)"
  using init_open_failure_reported [of dead_lab fresh "''USB0::1''" "''VI_ERROR_RSRC_NFOUND''"]
  by (simp add: dead_lab_def quiet_lab_def fresh_def)

section \<open>Acquisition needs a configured scope\<close>

lemma init_read_speed: "init env sid w = (Inr self, w') \<Longrightarrow> read_speed self = None"
  by (auto simp: init_def init_handler_def split: prod.splits option.splits sum.splits exn.splits)

lemma configure_scope_read_speed:
  "read_speed (fst (configure_scope env self chs sr tr c0 hs hi w)) = Some hs"
  by (simp add: configure_scope_def)

text \<open>
  Claim C10. On a manager whose \<open>read_speed\<close> is still \<open>None\<close>, both
  \<open>read_slow_return_data\<close> and \<open>acquire_slow_save_data\<close> raise \<open>ValueError\<close> and leave the
  world as it was: no command has been sent to the instrument and nothing was printed.
\<close>

theorem acquisition_requires_configuration:
  assumes "read_speed self = None"
  shows "read_slow_return_data pd env self channels w =
           (Inl (ValueError ''Scope read speed not set. Please configure the scope first.''), w)
       \<and> acquire_slow_save_data pd env self channels window w =
           (Inl (ValueError ''Scope read speed not set. Please configure the scope first.''), w)"
  using assms
  by (simp add: read_slow_return_data_def acquire_slow_save_data_def raise_def)

theorem acquisition_requires_configuration_witness:
  "read_slow_return_data text_frames quiet_lab unconfigured [1, 2] fresh =
     (Inl (ValueError ''Scope read speed not set. Please configure the scope first.''), fresh)
   \<and> acquire_slow_save_data text_frames quiet_lab unconfigured [1, 2] 0 fresh =
     (Inl (ValueError ''Scope read speed not set. Please configure the scope first.''), fresh)"
  using acquisition_requires_configuration
          [of unconfigured text_frames quiet_lab "[1, 2]" fresh 0]
  by (simp add: unconfigured_def)

lemma init_quiet: "fst (init quiet_lab ''USB0::1'' fresh) = Inr unconfigured"
  by (simp add: init_def control_eq scope_query_eq quiet_lab_def fresh_def unconfigured_def)

section \<open>Polling loops and their timeout\<close>

lemma arm_fail_raises:
  "\<exists>e w'. arm_fail env w = (Inl e, w')
     \<and> (never_fails env \<longrightarrow> e = arm_error \<and> sent w' = sent w @ [Clear, Close])"
  by (cases "ctl_error env (sent w @ [Clear])"; cases "ctl_error env (sent w @ [Clear, Close])")
     (auto simp: arm_fail_def control_eq never_fails_def arm_error_def)

lemma arm_fail_after:
  assumes "sent w0 = sent w @ h0"
  obtains e w' where "arm_fail env w0 = (Inl e, w')"
    and "never_fails env \<longrightarrow> e = arm_error \<and> (\<exists>h. sent w' = sent w @ h @ [Clear, Close])"
proof -
  from arm_fail_raises [of env w0] obtain e w' where
    f: "arm_fail env w0 = (Inl e, w')"
       "never_fails env \<longrightarrow> e = arm_error \<and> sent w' = sent w0 @ [Clear, Close]"
    by blast
  have "never_fails env \<longrightarrow> e = arm_error \<and> (\<exists>h. sent w' = sent w @ h @ [Clear, Close])"
    using f(2) assms by auto
  then show ?thesis using that f(1) by blast
qed

lemma arm_poll_raises:
  assumes never: "never_armed env base"
    and hist: "\<exists>h. sent w = base @ h"
    and expiry: "\<not> clock env (clock_reads w + n) < end"
  shows "\<exists>e w'. arm_poll env end poll w = Some (Inl e, w')
           \<and> (never_fails env \<and> 0 \<le> poll
                \<longrightarrow> e = arm_error \<and> (\<exists>h. sent w' = sent w @ h @ [Clear, Close]))"
  using hist expiry
proof (induction n arbitrary: w)
  case 0
  let ?w1 = "w\<lparr>clock_reads := Suc (clock_reads w)\<rparr>"
  obtain e w' where f: "arm_fail env ?w1 = (Inl e, w')"
    "never_fails env \<longrightarrow> e = arm_error \<and> (\<exists>h. sent w' = sent w @ h @ [Clear, Close])"
    by (rule arm_fail_after [of ?w1 w "[]" env]) simp_all
  have "arm_poll env end poll w = Some (Inl e, w')"
    using 0 f(1) by (subst arm_poll.simps) (simp add: perf_counter_eq)
  then show ?case using f(2) by blast
next
  case (Suc n)
  let ?w1 = "w\<lparr>clock_reads := Suc (clock_reads w)\<rparr>"
  let ?w2 = "issue (Query '':AER?'') ?w1"
  from Suc.prems(1) obtain h where h: "sent w = base @ h" by blast
  show ?case
  proof (cases "clock env (clock_reads w) < end")
    case False
    obtain e w' where f: "arm_fail env ?w1 = (Inl e, w')"
      "never_fails env \<longrightarrow> e = arm_error \<and> (\<exists>h. sent w' = sent w @ h @ [Clear, Close])"
      by (rule arm_fail_after [of ?w1 w "[]" env]) simp_all
    have "arm_poll env end poll w = Some (Inl e, w')"
      using False f(1) by (subst arm_poll.simps) (simp add: perf_counter_eq)
    then show ?thesis using f(2) by blast
  next
    case True
    obtain e2 w2' where f2: "arm_fail env ?w2 = (Inl e2, w2')"
      "never_fails env \<longrightarrow> e2 = arm_error \<and> (\<exists>h. sent w2' = sent w @ h @ [Clear, Close])"
      by (rule arm_fail_after [of ?w2 w "[Query '':AER?'']" env]) simp_all
    show ?thesis
    proof (cases "query_reply env (sent w @ [Query '':AER?''])")
      case (Inl e)
      have "arm_poll env end poll w = Some (Inl e2, w2')"
        using True Inl f2(1) by (subst arm_poll.simps) (simp add: perf_counter_eq scope_query_eq)
      then show ?thesis using f2(2) by blast
    next
      case (Inr r)
      show ?thesis
      proof (cases "py_int r")
        case None
        have "arm_poll env end poll w = Some (Inl e2, w2')"
          using True Inr None f2(1)
          by (subst arm_poll.simps) (simp add: perf_counter_eq scope_query_eq)
        then show ?thesis using f2(2) by blast
      next
        case (Some v)
        have v: "v \<noteq> 1"
          using never Inr Some h unfolding never_armed_def by auto
        show ?thesis
        proof (cases "poll < 0")
          case True
          then show ?thesis
            using \<open>clock env (clock_reads w) < end\<close> Inr Some v
            by (subst arm_poll.simps) (auto simp: perf_counter_eq scope_query_eq time_sleep_def)
        next
          case False
          have "\<exists>h'. sent ?w2 = base @ h'" using h by simp
          moreover have "\<not> clock env (clock_reads ?w2 + n) < end"
            using Suc.prems(2) by simp
          ultimately obtain e w' where rec: "arm_poll env end poll ?w2 = Some (Inl e, w')"
            "never_fails env \<and> 0 \<le> poll
               \<longrightarrow> e = arm_error \<and> (\<exists>h. sent w' = sent ?w2 @ h @ [Clear, Close])"
            using Suc.IH by blast
          have "arm_poll env end poll w = Some (Inl e, w')"
            using False \<open>clock env (clock_reads w) < end\<close> Inr Some v rec(1)
            by (subst arm_poll.simps) (simp add: perf_counter_eq scope_query_eq time_sleep_def)
          moreover have "never_fails env \<and> 0 \<le> poll
               \<longrightarrow> e = arm_error \<and> (\<exists>h. sent w' = sent w @ h @ [Clear, Close])"
          proof
            assume "never_fails env \<and> 0 \<le> poll"
            with rec(2) obtain h' where "e = arm_error" "sent w' = sent ?w2 @ h' @ [Clear, Close]"
              by blast
            then have "sent w' = sent w @ (Query '':AER?'' # h') @ [Clear, Close]" by simp
            then show "e = arm_error \<and> (\<exists>h. sent w' = sent w @ h @ [Clear, Close])"
              using \<open>e = arm_error\<close> by blast
          qed
          ultimately show ?thesis by blast
        qed
      qed
    qed
  qed
qed

lemma arm_scope_raises:
  assumes never: "never_armed env (sent w @ [Query '':AER?'', Write '':SINGLE''])"
    and expiry: "\<not> clock env (Suc (clock_reads w) + n) < clock env (clock_reads w) + max_wait"
  shows "\<exists>e w'. arm_scope env max_wait poll w = Some (Inl e, w')
           \<and> (always_answers env \<and> never_fails env \<and> 0 \<le> poll
                \<longrightarrow> e = arm_error
                  \<and> (\<exists>h. sent w' = sent w @ [Query '':AER?'', Write '':SINGLE''] @ h @ [Clear, Close]))"
proof (cases "query_reply env (sent w @ [Query '':AER?''])")
  case (Inl e)
  then have "\<not> always_answers env"
    unfolding always_answers_def by (metis sum.distinct(1))
  then show ?thesis using Inl by (simp add: arm_scope_def scope_query_eq)
next
  case (Inr r)
  let ?w1 = "issue (Query '':AER?'') w"
  show ?thesis
  proof (cases "ctl_error env (sent ?w1 @ [Write '':SINGLE''])")
    case (Some e)
    then show ?thesis
      using Inr
      by (auto simp: arm_scope_def scope_query_eq scope_write_def control_eq never_fails_def)
  next
    case None
    let ?w3 = "(issue (Write '':SINGLE'') ?w1)\<lparr>clock_reads := Suc (clock_reads w)\<rparr>"
    have hist3: "\<exists>h. sent ?w3 = (sent w @ [Query '':AER?'', Write '':SINGLE'']) @ h" by simp
    have expiry3: "\<not> clock env (clock_reads ?w3 + n) < clock env (clock_reads w) + max_wait"
      using expiry by simp
    from arm_poll_raises [OF never hist3 expiry3, of poll] obtain e w' where rec:
      "arm_poll env (clock env (clock_reads w) + max_wait) poll ?w3 = Some (Inl e, w')"
      "never_fails env \<and> 0 \<le> poll
         \<longrightarrow> e = arm_error \<and> (\<exists>h. sent w' = sent ?w3 @ h @ [Clear, Close])"
      by blast
    have "arm_scope env max_wait poll w = Some (Inl e, w')"
      using Inr None rec(1)
      by (simp add: arm_scope_def scope_query_eq scope_write_def control_eq perf_counter_eq)
    moreover have "never_fails env \<and> 0 \<le> poll
         \<longrightarrow> e = arm_error
           \<and> (\<exists>h. sent w' = sent w @ [Query '':AER?'', Write '':SINGLE''] @ h @ [Clear, Close])"
      using rec(2) by simp
    ultimately show ?thesis by blast
  qed
qed

lemma wait_try_no_trigger:
  assumes "py_int ter = None \<or> py_int ter = Some 0" and "\<not> fst ready"
  shows "(\<exists>w'. wait_try ter oper rstate pder ready w = (Break, w')
              \<and> clock_reads w' = clock_reads w \<and> sent w' = sent w)
       \<or> (\<exists>r w'. wait_try ter oper rstate pder ready w = (Continue (False, r), w')
              \<and> clock_reads w' = clock_reads w \<and> sent w' = sent w)"
  using assms
  by (auto simp: wait_try_def wait_finish_def py_print_def Let_def split: option.split)

lemma wait_try_no_others:
  assumes "\<not> others_met oper rstate pder" and "\<not> snd ready"
  shows "(\<exists>w'. wait_try ter oper rstate pder ready w = (Break, w')
              \<and> clock_reads w' = clock_reads w \<and> sent w' = sent w)
       \<or> (\<exists>r w'. wait_try ter oper rstate pder ready w = (Continue (r, False), w')
              \<and> clock_reads w' = clock_reads w \<and> sent w' = sent w)"
  using assms
  by (auto simp: wait_try_def wait_finish_def py_print_def Let_def others_met_def
      split: option.split)

lemma wait_try_never_success:
  assumes "never_success env base ready"
    and "query_reply env (base @ h @ [Query '':TER?'']) = Inr ter"
    and "query_reply env (base @ h @ [Query '':TER?'', Query '':OPER?'']) = Inr oper"
    and "query_reply env (base @ h @ [Query '':TER?'', Query '':OPER?'', Query '':RSTATE?''])
           = Inr rstate"
    and "query_reply env (base @ h @ [Query '':TER?'', Query '':OPER?'', Query '':RSTATE?'',
           Query '':PDER?'']) = Inr pder"
  shows "(\<exists>w'. wait_try (strip ter) (strip oper) (strip rstate) (strip pder) ready w = (Break, w')
              \<and> clock_reads w' = clock_reads w \<and> sent w' = sent w)
       \<or> (\<exists>ready' w'. wait_try (strip ter) (strip oper) (strip rstate) (strip pder) ready w
                = (Continue ready', w')
              \<and> never_success env base ready' \<and> clock_reads w' = clock_reads w \<and> sent w' = sent w)"
proof -
  let ?trig = "\<forall>h s. query_reply env (base @ h @ [Query '':TER?'']) = Inr s \<longrightarrow>
          py_int (strip s) = None \<or> py_int (strip s) = Some 0"
  let ?others = "\<forall>h oper rstate pder.
          query_reply env (base @ h @ [Query '':TER?'', Query '':OPER?'']) = Inr oper \<longrightarrow>
          query_reply env (base @ h @ [Query '':TER?'', Query '':OPER?'', Query '':RSTATE?''])
            = Inr rstate \<longrightarrow>
          query_reply env (base @ h @ [Query '':TER?'', Query '':OPER?'', Query '':RSTATE?'',
            Query '':PDER?'']) = Inr pder \<longrightarrow>
          \<not> others_met (strip oper) (strip rstate) (strip pder)"
  from assms(1) consider (trig) "\<not> fst ready" ?trig | (others) "\<not> snd ready" ?others
    unfolding never_success_def by blast
  then show ?thesis
  proof cases
    case trig
    have "py_int (strip ter) = None \<or> py_int (strip ter) = Some 0"
      using trig(2) assms(2) by blast
    from wait_try_no_trigger [OF this trig(1), of "strip oper" "strip rstate" "strip pder" w]
    show ?thesis using trig(2) by (auto simp: never_success_def)
  next
    case others
    have "\<not> others_met (strip oper) (strip rstate) (strip pder)"
      using others(2) assms(3,4,5) by blast
    from wait_try_no_others [OF this others(1), of "strip ter" w]
    show ?thesis using others(2) by (auto simp: never_success_def)
  qed
qed

lemma wait_poll_returns_False:
  assumes answers: "always_answers env"
    and poll: "0 \<le> poll"
    and never: "never_success env base ready"
    and hist: "\<exists>h. sent w = base @ h"
    and expiry: "\<not> clock env (clock_reads w + n) < end"
  shows "\<exists>w'. wait_poll env end poll ready w = Some (Inr False, w')"
  using never hist expiry
proof (induction n arbitrary: w ready)
  case 0
  then show ?case
    by (subst wait_poll.simps) (auto simp: perf_counter_eq)
next
  case (Suc n)
  let ?w0 = "w\<lparr>clock_reads := Suc (clock_reads w)\<rparr>"
  let ?w1 = "issue (Query '':TER?'') ?w0"
  let ?w2 = "issue (Query '':OPER?'') ?w1"
  let ?w3 = "issue (Query '':RSTATE?'') ?w2"
  let ?w4 = "issue (Query '':PDER?'') ?w3"
  from Suc.prems(2) obtain h where h: "sent w = base @ h" by blast
  show ?case
  proof (cases "clock env (clock_reads w) < end")
    case False
    then show ?thesis
      by (subst wait_poll.simps) (auto simp: perf_counter_eq)
  next
    case True
    from answers obtain ter where q1: "query_reply env (sent ?w0 @ [Query '':TER?'']) = Inr ter"
      unfolding always_answers_def by blast
    from answers obtain oper where q2: "query_reply env (sent ?w1 @ [Query '':OPER?'']) = Inr oper"
      unfolding always_answers_def by blast
    from answers obtain rstate where
      q3: "query_reply env (sent ?w2 @ [Query '':RSTATE?'']) = Inr rstate"
      unfolding always_answers_def by blast
    from answers obtain pder where q4: "query_reply env (sent ?w3 @ [Query '':PDER?'']) = Inr pder"
      unfolding always_answers_def by blast
    have q1': "query_reply env (base @ h @ [Query '':TER?'']) = Inr ter"
      using q1 h by simp
    have q2': "query_reply env (base @ h @ [Query '':TER?'', Query '':OPER?'']) = Inr oper"
      using q2 h by simp
    have q3': "query_reply env (base @ h @ [Query '':TER?'', Query '':OPER?'', Query '':RSTATE?''])
                 = Inr rstate"
      using q3 h by simp
    have q4': "query_reply env (base @ h @ [Query '':TER?'', Query '':OPER?'', Query '':RSTATE?'',
                 Query '':PDER?'']) = Inr pder"
      using q4 h by simp
    from wait_try_never_success [OF Suc.prems(1) q1' q2' q3' q4', of ?w4]
    consider
        (brk) w5 where "wait_try (strip ter) (strip oper) (strip rstate) (strip pder) ready ?w4
                          = (Break, w5)"
      | (cont) ready' w5 where "wait_try (strip ter) (strip oper) (strip rstate) (strip pder) ready ?w4
                          = (Continue ready', w5)"
          "never_success env base ready'" "clock_reads w5 = clock_reads ?w4" "sent w5 = sent ?w4"
      by blast
    then show ?thesis
    proof cases
      case brk
      then show ?thesis
        using True q1 q2 q3 q4
        by (subst wait_poll.simps) (simp add: perf_counter_eq scope_query_eq)
    next
      case cont
      have "\<not> clock env (clock_reads w5 + n) < end"
        using Suc.prems(3) cont(3) by simp
      moreover have "\<exists>h'. sent w5 = base @ h'"
        using cont(4) h by simp
      ultimately obtain w' where "wait_poll env end poll ready' w5 = Some (Inr False, w')"
        using Suc.IH [OF cont(2)] by blast
      then show ?thesis
        using True q1 q2 q3 q4 cont(1) poll
        by (subst wait_poll.simps) (simp add: perf_counter_eq scope_query_eq time_sleep_def)
    qed
  qed
qed

lemma wait_for_acquisition_returns_False:
  assumes "always_answers env" and "0 \<le> poll"
    and "never_success env (sent w) (False, False)"
    and "\<not> clock env (Suc (clock_reads w) + n) < clock env (clock_reads w) + max_wait"
  shows "\<exists>w'. wait_for_acquisition env max_wait poll w = Some (Inr False, w')"
proof -
  let ?w1 = "w\<lparr>clock_reads := Suc (clock_reads w)\<rparr>"
  have "\<exists>h. sent ?w1 = sent w @ h" by simp
  moreover have "\<not> clock env (clock_reads ?w1 + n) < clock env (clock_reads w) + max_wait"
    using assms(4) by simp
  ultimately show ?thesis
    using wait_poll_returns_False [OF assms(1,2,3), of ?w1 n "clock env (clock_reads w) + max_wait"]
    by (simp add: wait_for_acquisition_def perf_counter_eq)
qed

text \<open>
  Whatever the instrument answers, the body of the \<open>try\<close> only prints, and it returns
  exactly when it prints \<open>Success\<close>.
\<close>

lemma wait_try_prints:
  obtains outcome out w' where
    "wait_try ter oper rstate pder ready w = (outcome, w')"
    "stdout w' = stdout w @ out" "clock_reads w' = clock_reads w" "sent w' = sent w"
    "outcome = Return \<longleftrightarrow> ''Success'' \<in> set out"
proof -
  obtain outcome w' where r: "wait_try ter oper rstate pder ready w = (outcome, w')"
    by (cases "wait_try ter oper rstate pder ready w")
  have "take (length (stdout w)) (stdout w') = stdout w
      \<and> (outcome = Return \<longleftrightarrow> ''Success'' \<in> set (drop (length (stdout w)) (stdout w')))
      \<and> clock_reads w' = clock_reads w \<and> sent w' = sent w"
    using r
    by (auto simp: wait_try_def wait_finish_def py_print_def Let_def
        split: option.splits if_splits)
  moreover from this have "stdout w' = stdout w @ drop (length (stdout w)) (stdout w')"
    by (metis append_take_drop_id)
  ultimately show ?thesis using that r by blast
qed

text \<open>
  When every query is answered and the poll interval is not negative, the loop of
  \<open>wait_for_acquisition\<close> ends without an exception once the clock reaches the deadline,
  and its result is \<open>True\<close> exactly when \<open>Success\<close> has been printed.
\<close>

lemma wait_poll_never_raises:
  assumes answers: "always_answers env"
    and poll: "0 \<le> poll"
    and expiry: "\<not> clock env (clock_reads w + n) < end"
  shows "\<exists>b out w'. wait_poll env end poll ready w = Some (Inr b, w')
           \<and> stdout w' = stdout w @ out \<and> (b \<longleftrightarrow> ''Success'' \<in> set out)"
  using expiry
proof (induction n arbitrary: w ready)
  case 0
  have "wait_poll env end poll ready w
          = Some (Inr False, w\<lparr>clock_reads := Suc (clock_reads w)\<rparr>)"
    using 0 by (subst wait_poll.simps) (simp add: perf_counter_eq)
  then show ?case by (intro exI [of _ False] exI [of _ "[]"]) simp
next
  case (Suc n)
  let ?w0 = "w\<lparr>clock_reads := Suc (clock_reads w)\<rparr>"
  let ?w1 = "issue (Query '':TER?'') ?w0"
  let ?w2 = "issue (Query '':OPER?'') ?w1"
  let ?w3 = "issue (Query '':RSTATE?'') ?w2"
  let ?w4 = "issue (Query '':PDER?'') ?w3"
  show ?case
  proof (cases "clock env (clock_reads w) < end")
    case False
    have "wait_poll env end poll ready w = Some (Inr False, ?w0)"
      using False by (subst wait_poll.simps) (simp add: perf_counter_eq)
    then show ?thesis by (intro exI [of _ False] exI [of _ "[]"]) simp
  next
    case True
    from answers obtain ter where q1: "query_reply env (sent ?w0 @ [Query '':TER?'']) = Inr ter"
      unfolding always_answers_def by blast
    from answers obtain oper where q2: "query_reply env (sent ?w1 @ [Query '':OPER?'']) = Inr oper"
      unfolding always_answers_def by blast
    from answers obtain rstate where
      q3: "query_reply env (sent ?w2 @ [Query '':RSTATE?'']) = Inr rstate"
      unfolding always_answers_def by blast
    from answers obtain pder where q4: "query_reply env (sent ?w3 @ [Query '':PDER?'']) = Inr pder"
      unfolding always_answers_def by blast
    obtain outcome out5 w5 where t:
      "wait_try (strip ter) (strip oper) (strip rstate) (strip pder) ready ?w4 = (outcome, w5)"
      "stdout w5 = stdout ?w4 @ out5" "clock_reads w5 = clock_reads ?w4"
      "outcome = Return \<longleftrightarrow> ''Success'' \<in> set out5"
      by (rule wait_try_prints)
    have out5: "stdout w5 = stdout w @ out5" using t(2) by simp
    show ?thesis
    proof (cases outcome)
      case Break
      have "wait_poll env end poll ready w = Some (Inr False, w5)"
        using True q1 q2 q3 q4 t(1) Break
        by (subst wait_poll.simps) (simp add: perf_counter_eq scope_query_eq)
      moreover have "''Success'' \<notin> set out5" using t(4) Break by simp
      ultimately show ?thesis using out5 by blast
    next
      case Return
      have "wait_poll env end poll ready w = Some (Inr True, w5)"
        using True q1 q2 q3 q4 t(1) Return
        by (subst wait_poll.simps) (simp add: perf_counter_eq scope_query_eq)
      moreover have "''Success'' \<in> set out5" using t(4) Return by simp
      ultimately show ?thesis using out5 by blast
    next
      case (Continue ready')
      have "\<not> clock env (clock_reads w5 + n) < end"
        using Suc.prems t(3) by simp
      from Suc.IH [OF this, of ready'] obtain b out w' where rec:
        "wait_poll env end poll ready' w5 = Some (Inr b, w')"
        "stdout w' = stdout w5 @ out" "b \<longleftrightarrow> ''Success'' \<in> set out"
        by blast
      have "wait_poll env end poll ready w = Some (Inr b, w')"
        using True q1 q2 q3 q4 t(1) Continue rec(1) poll
        by (subst wait_poll.simps) (simp add: perf_counter_eq scope_query_eq time_sleep_def)
      moreover have "stdout w' = stdout w @ (out5 @ out)" using rec(2) out5 by simp
      moreover have "b \<longleftrightarrow> ''Success'' \<in> set (out5 @ out)"
        using rec(3) t(4) Continue by simp
      ultimately show ?thesis by blast
    qed
  qed
qed

lemma wait_for_acquisition_never_raises:
  assumes "always_answers env" and "0 \<le> poll"
    and "\<not> clock env (Suc (clock_reads w) + n) < clock env (clock_reads w) + max_wait"
  shows "\<exists>b out w'. wait_for_acquisition env max_wait poll w = Some (Inr b, w')
           \<and> stdout w' = stdout w @ out \<and> (b \<longleftrightarrow> ''Success'' \<in> set out)"
proof -
  let ?w1 = "w\<lparr>clock_reads := Suc (clock_reads w)\<rparr>"
  have "\<not> clock env (clock_reads ?w1 + n) < clock env (clock_reads w) + max_wait"
    using assms(3) by simp
  from wait_poll_never_raises [OF assms(1,2) this, of "(False, False)"]
  show ?thesis by (simp add: wait_for_acquisition_def perf_counter_eq)
qed

lemma py_int_zero: "py_int ''0'' = Some 0" and strip_zero: "strip ''0'' = ''0''"
  by code_simp+

lemma quiet_never_armed: "never_armed quiet_lab base"
  by (simp add: never_armed_def quiet_lab_def py_int_zero)

lemma quiet_never_success: "never_success quiet_lab base (False, False)"
  by (simp add: never_success_def quiet_lab_def py_int_zero strip_zero)

lemma quiet_always_answers: "always_answers quiet_lab"
  by (simp add: always_answers_def quiet_lab_def)

lemma quiet_never_fails: "never_fails quiet_lab"
  by (simp add: never_fails_def quiet_lab_def)

text \<open>
  Claim C1, as the code has it. Let the clock reach the deadline at some later reading.

  When no poll reads the armed event, \<open>arm_scope\<close> ends and raises. When moreover every
  query is answered, no command fails and the poll interval is not negative, the
  exception is the \<open>RuntimeError\<close> of its last line, and \<open>clear()\<close> and \<open>close()\<close> are the
  last two commands sent before it.

  When every query is answered and the poll interval is not negative,
  \<open>wait_for_acquisition\<close> ends and does not raise: it returns \<open>True\<close> if \<open>Success\<close> has been
  printed, that is if a poll has found both flags set, and \<open>False\<close> otherwise. In
  particular it returns \<open>False\<close> when no poll reads a trigger event, and when no poll finds
  the second condition met.
\<close>

theorem polling_timeouts:
  assumes expiry:
    "\<not> clock env (Suc (clock_reads w) + n) < clock env (clock_reads w) + max_acq_wait_sec"
  shows "(never_armed env (sent w @ [Query '':AER?'', Write '':SINGLE'']) \<longrightarrow>
            (\<exists>e w'. arm_scope env max_acq_wait_sec poll_interval_sec w = Some (Inl e, w')
               \<and> (always_answers env \<and> never_fails env \<and> 0 \<le> poll_interval_sec
                    \<longrightarrow> e = arm_error
                      \<and> (\<exists>h. sent w' = sent w @ [Query '':AER?'', Write '':SINGLE''] @ h
                                          @ [Clear, Close]))))
       \<and> (always_answers env \<and> 0 \<le> poll_interval_sec \<longrightarrow>
            (\<exists>b out w'. wait_for_acquisition env max_acq_wait_sec poll_interval_sec w
                     = Some (Inr b, w')
               \<and> stdout w' = stdout w @ out \<and> (b \<longleftrightarrow> ''Success'' \<in> set out)
               \<and> (never_success env (sent w) (False, False) \<longrightarrow> \<not> b)))"
proof (intro conjI impI)
  assume "never_armed env (sent w @ [Query '':AER?'', Write '':SINGLE''])"
  from arm_scope_raises [OF this expiry]
  show "\<exists>e w'. arm_scope env max_acq_wait_sec poll_interval_sec w = Some (Inl e, w')
               \<and> (always_answers env \<and> never_fails env \<and> 0 \<le> poll_interval_sec
                    \<longrightarrow> e = arm_error
                      \<and> (\<exists>h. sent w' = sent w @ [Query '':AER?'', Write '':SINGLE''] @ h
                                          @ [Clear, Close]))"
    by blast
next
  assume calm: "always_answers env \<and> 0 \<le> poll_interval_sec"
  from wait_for_acquisition_never_raises [OF _ _ expiry, of poll_interval_sec] calm
  obtain b out w' where r:
    "wait_for_acquisition env max_acq_wait_sec poll_interval_sec w = Some (Inr b, w')"
    "stdout w' = stdout w @ out" "b \<longleftrightarrow> ''Success'' \<in> set out"
    by blast
  have "never_success env (sent w) (False, False) \<longrightarrow> \<not> b"
  proof
    assume "never_success env (sent w) (False, False)"
    from wait_for_acquisition_returns_False [OF _ _ this expiry, of poll_interval_sec] calm
    obtain w'' where
      "wait_for_acquisition env max_acq_wait_sec poll_interval_sec w = Some (Inr False, w'')"
      by blast
    with r(1) show "\<not> b" by simp
  qed
  with r show "\<exists>b out w'. wait_for_acquisition env max_acq_wait_sec poll_interval_sec w
                     = Some (Inr b, w')
               \<and> stdout w' = stdout w @ out \<and> (b \<longleftrightarrow> ''Success'' \<in> set out)
               \<and> (never_success env (sent w) (False, False) \<longrightarrow> \<not> b)"
    by blast
qed

theorem polling_timeouts_witness:
  "(\<exists>w' h. arm_scope quiet_lab 1 (1/100) fresh = Some (Inl arm_error, w')
       \<and> sent w' = sent fresh @ [Query '':AER?'', Write '':SINGLE''] @ h @ [Clear, Close])
   \<and> (\<exists>w'. wait_for_acquisition quiet_lab 1 (1/100) fresh = Some (Inr False, w'))"
proof -
  have "\<not> clock quiet_lab (Suc (clock_reads fresh) + 1) < clock quiet_lab (clock_reads fresh) + 1"
    by (simp add: quiet_lab_def fresh_def)
  from polling_timeouts [OF this, of "1/100"]
  show ?thesis
    using quiet_never_armed quiet_never_success quiet_always_answers quiet_never_fails
    by fastforce
qed

text \<open>
  The claim as stated fails for \<open>wait_for_acquisition\<close>: with a one second limit, a clock
  that advances half a second per reading and an instrument that answers \<open>0\<close> to every
  query, one poll is made, the limit passes, and the call returns \<open>False\<close>.
\<close>

theorem wait_for_acquisition_timeout_counterexample:
  "never_success quiet_lab [] (False, False)
   \<and> wait_for_acquisition quiet_lab 1 (1/100) fresh =
       Some (Inr False,
             \<lparr>sent = [Query '':TER?'', Query '':OPER?'', Query '':RSTATE?'', Query '':PDER?''],
              stdout = [], clock_reads = 3, files = []\<rparr>)"
proof
  show "never_success quiet_lab [] (False, False)" by (rule quiet_never_success)
  show "wait_for_acquisition quiet_lab 1 (1/100) fresh =
       Some (Inr False,
             \<lparr>sent = [Query '':TER?'', Query '':OPER?'', Query '':RSTATE?'', Query '':PDER?''],
              stdout = [], clock_reads = 3, files = []\<rparr>)"
    by code_simp
qed

section \<open>Pulse envelopes\<close>

lemma amax_Max:
  assumes "xs \<noteq> []"
  shows "amax xs = Inr (Max (set xs))"
proof -
  from assms obtain x ys where xs: "xs = x # ys" by (cases xs) auto
  have "Max (set (x # ys)) = fold max ys x" by (rule Max.set_eq_fold)
  then show ?thesis unfolding xs by simp
qed

lemma Max_abs_eq_one:
  assumes "A \<noteq> []" and "\<forall>x \<in> set A. \<bar>x\<bar> \<le> 1" and "x0 \<in> set A" and "\<bar>x0\<bar> = (1::real)"
  shows "Max (abs ` set A) = 1"
proof (rule Max_eqI)
  show "finite (abs ` set A)" by simp
  show "y \<le> 1" if "y \<in> abs ` set A" for y using that assms(2) by auto
  show "1 \<in> abs ` set A" using assms(3,4) by force
qed

lemma normalize_peak:
  assumes "Omega \<noteq> []"
  shows "\<exists>A. normalize Omega = Inr A \<and> normalized_from Omega A"
proof -
  let ?m = "Max (abs ` set Omega)"
  have "amax (map abs Omega) = Inr (Max (set (map abs Omega)))"
    using assms by (intro amax_Max) simp
  then have amax: "amax (map abs Omega) = Inr ?m" by simp
  have bound: "\<bar>x\<bar> \<le> ?m" if "x \<in> set Omega" for x
    using that by (intro Max_ge) auto
  have "?m \<in> abs ` set Omega"
    using assms by (intro Max_in) auto
  then obtain x0 where x0: "x0 \<in> set Omega" "\<bar>x0\<bar> = ?m" by auto
  show ?thesis
  proof (cases "?m = 0")
    case True
    then have zero: "\<forall>x \<in> set Omega. x = 0" using bound by fastforce
    have "normalize Omega = Inr Omega"
      using amax True by (simp add: normalize_def)
    then show ?thesis using zero by (simp add: normalized_from_def)
  next
    case False
    then have pos: "0 < ?m" using x0(2) by (metis abs_ge_zero less_eq_real_def)
    let ?A = "map (\<lambda>x. x / ?m) Omega"
    have norm: "normalize Omega = Inr ?A"
      using amax False by (simp add: normalize_def)
    have "x0 \<noteq> 0" using x0(2) False by auto
    then have nz: "\<not> (\<forall>x \<in> set Omega. x = 0)"
      using x0(1) by blast
    have "Max (abs ` set ?A) = 1"
    proof (rule Max_abs_eq_one)
      show "?A \<noteq> []" using assms by simp
      show "\<forall>y \<in> set ?A. \<bar>y\<bar> \<le> 1"
        using bound pos by (auto simp: divide_le_eq_1)
      show "x0 / ?m \<in> set ?A" using x0(1) by force
      show "\<bar>x0 / ?m\<bar> = 1" using x0(2) pos by simp
    qed
    then show ?thesis by (simp add: normalized_from_def nz norm)
  qed
qed

text \<open>Setting the tiny elements to zero keeps the peak.\<close>

lemma rescale_peak:
  assumes "normalized_from Omega A"
  shows "written_peak Omega (rescale A)"
proof (cases "\<forall>x \<in> set Omega. x = 0")
  case True
  then have "A = Omega" using assms by (simp add: normalized_from_def)
  moreover have "rescale Omega = Omega"
    using True by (simp add: rescale_def map_idI)
  ultimately show ?thesis using True by (simp add: written_peak_def)
next
  case False
  have mx: "Max (abs ` set A) = 1"
    using assms unfolding normalized_from_def if_not_P [OF False] by blast
  have ne: "A \<noteq> []"
  proof
    assume "A = []"
    then have "Omega = []"
      using assms unfolding normalized_from_def if_not_P [OF False] by simp
    then show False using False by simp
  qed
  have le: "\<bar>x\<bar> \<le> 1" if "x \<in> set A" for x
  proof -
    have "\<bar>x\<bar> \<le> Max (abs ` set A)" using that by (intro Max_ge) auto
    then show ?thesis using mx by simp
  qed
  have "Max (abs ` set A) \<in> abs ` set A" using ne by (intro Max_in) auto
  then obtain x0 where x0: "x0 \<in> set A" "\<bar>x0\<bar> = 1" using mx by auto
  have "Max (abs ` set (rescale A)) = 1"
  proof (rule Max_abs_eq_one)
    show "rescale A \<noteq> []" using ne by (simp add: rescale_def)
    show "\<forall>y \<in> set (rescale A). \<bar>y\<bar> \<le> 1"
      using le by (auto simp: rescale_def)
    have "(if \<bar>x0\<bar> < 1 / 10 ^ 9 then 0 else x0) = x0" using x0(2) by simp
    then show "x0 \<in> set (rescale A)"
      using x0(1) unfolding rescale_def by force
    show "\<bar>x0\<bar> = 1" by (rule x0(2))
  qed
  then show ?thesis unfolding written_peak_def if_not_P [OF False] .
qed

lemma linspace_samples:
  "1 \<le> N \<Longrightarrow> \<exists>t. linspace a b N = Inr t \<and> t \<noteq> []"
  by (auto simp: linspace_def)

text \<open>
  Over the reals both envelopes are positive at every sample, so the guard of the
  divisor is not reached from \<open>generate_rabi\<close>.
\<close>

lemma mixing_angle:
  "0 < pi / 2 * (1 / (1 + exp u)) \<and> pi / 2 * (1 / (1 + exp u)) < pi / 2" for u :: real
proof -
  have "0 < exp u" by simp
  then have "0 < 1 / (1 + exp u)" "1 / (1 + exp u) < 1" by (simp_all add: add_pos_pos)
  then show ?thesis using pi_gt_zero by (simp add: field_simps)
qed

lemma pump2_pos: "0 < pump2 t T"
proof -
  have s: "0 < sin (pi / 2 * (1 / (1 + exp u)))" for u :: real
  proof (rule sin_gt_zero)
    show "0 < pi / 2 * (1 / (1 + exp u))" using mixing_angle by blast
    have "pi / 2 * (1 / (1 + exp u)) < pi / 2" using mixing_angle by blast
    then show "pi / 2 * (1 / (1 + exp u)) < pi" using pi_gt_zero by linarith
  qed
  show ?thesis unfolding pump2_def Let_def by (intro mult_pos_pos exp_gt_zero s)
qed

lemma stokes2_pos: "0 < stokes2 t T"
proof -
  have c: "0 < cos (pi / 2 * (1 / (1 + exp u)))" for u :: real
  proof (rule cos_gt_zero_pi)
    have "0 < pi / 2 * (1 / (1 + exp u))" using mixing_angle by blast
    then show "- (pi / 2) < pi / 2 * (1 / (1 + exp u))" using pi_gt_zero by linarith
    show "pi / 2 * (1 / (1 + exp u)) < pi / 2" using mixing_angle by blast
  qed
  show ?thesis unfolding stokes2_def Let_def by (intro mult_pos_pos exp_gt_zero c)
qed

text \<open>
  Claim C8. Let the double product \<open>T * sample_rate\<close> be finite and \<open>int\<close> of it be at
  least one. Then \<open>generate_rabi\<close> returns the file name prefix after exporting two
  arrays, first the pump envelope and then the Stokes envelope, each divided element by
  element by its own largest absolute value, so that its largest absolute value is
  exactly one; the array that \<open>export_to_csv\<close> writes, with the tiny elements set to
  zero, still has largest absolute value one. The normalisation step does this for
  every non-empty envelope, and leaves an envelope that is zero everywhere unchanged.
\<close>

theorem generate_rabi_normalizes:
  assumes "float_mul (fl env) T sample_rate = Some p" and "1 \<le> py_trunc p"
  shows "\<exists>t P S.
           linspace 0 T (py_trunc p) = Inr t
         \<and> generate_rabi env T ''standard'' sample_rate output_dir w =
             (Inr (''standard_'' @ fmt_float0 T (float_mul (fl env) T 1000) @ ''ns''),
              export_to_csv env S output_dir
                (''standard_'' @ fmt_float0 T (float_mul (fl env) T 1000) @ ''ns'' @ ''_stokes.csv'')
                (export_to_csv env P output_dir
                   (''standard_'' @ fmt_float0 T (float_mul (fl env) T 1000) @ ''ns'' @ ''_pump.csv'')
                   w))
         \<and> normalized_from (map (\<lambda>ti. pump2 ti T) t) P
         \<and> normalized_from (map (\<lambda>ti. stokes2 ti T) t) S
         \<and> written_peak (map (\<lambda>ti. pump2 ti T) t) (rescale P)
         \<and> written_peak (map (\<lambda>ti. stokes2 ti T) t) (rescale S)
         \<and> (\<forall>Omega. Omega \<noteq> [] \<longrightarrow> (\<exists>A. normalize Omega = Inr A \<and> normalized_from Omega A))"
proof -
  from linspace_samples [OF assms(2)] obtain t where
    t: "linspace 0 T (py_trunc p) = Inr t" "t \<noteq> []" by blast
  from normalize_peak [of "map (\<lambda>ti. pump2 ti T) t"] t(2) obtain P where
    P: "normalize (map (\<lambda>ti. pump2 ti T) t) = Inr P"
       "normalized_from (map (\<lambda>ti. pump2 ti T) t) P" by auto
  from normalize_peak [of "map (\<lambda>ti. stokes2 ti T) t"] t(2) obtain S where
    S: "normalize (map (\<lambda>ti. stokes2 ti T) t) = Inr S"
       "normalized_from (map (\<lambda>ti. stokes2 ti T) t) S" by auto
  have run: "generate_rabi env T ''standard'' sample_rate output_dir w =
             (Inr (''standard_'' @ fmt_float0 T (float_mul (fl env) T 1000) @ ''ns''),
              export_to_csv env S output_dir
                (''standard_'' @ fmt_float0 T (float_mul (fl env) T 1000) @ ''ns'' @ ''_stokes.csv'')
                (export_to_csv env P output_dir
                   (''standard_'' @ fmt_float0 T (float_mul (fl env) T 1000) @ ''ns'' @ ''_pump.csv'')
                   w))"
    using assms(1) t(1) P(1) S(1)
    by (simp add: generate_rabi_def py_int_of_float_def Let_def and_then_def lift_def ok_def)
  have guard: "\<forall>Omega. Omega \<noteq> [] \<longrightarrow> (\<exists>A. normalize Omega = Inr A \<and> normalized_from Omega A)"
    using normalize_peak by blast
  show ?thesis
  proof (intro exI conjI)
    show "linspace 0 T (py_trunc p) = Inr t" by (rule t(1))
    show "generate_rabi env T ''standard'' sample_rate output_dir w =
             (Inr (''standard_'' @ fmt_float0 T (float_mul (fl env) T 1000) @ ''ns''),
              export_to_csv env S output_dir
                (''standard_'' @ fmt_float0 T (float_mul (fl env) T 1000) @ ''ns'' @ ''_stokes.csv'')
                (export_to_csv env P output_dir
                   (''standard_'' @ fmt_float0 T (float_mul (fl env) T 1000) @ ''ns'' @ ''_pump.csv'')
                   w))"
      by (rule run)
    show "normalized_from (map (\<lambda>ti. pump2 ti T) t) P" by (rule P(2))
    show "normalized_from (map (\<lambda>ti. stokes2 ti T) t) S" by (rule S(2))
    show "written_peak (map (\<lambda>ti. pump2 ti T) t) (rescale P)" by (rule rescale_peak [OF P(2)])
    show "written_peak (map (\<lambda>ti. stokes2 ti T) t) (rescale S)" by (rule rescale_peak [OF S(2)])
    show "\<forall>Omega. Omega \<noteq> [] \<longrightarrow> (\<exists>A. normalize Omega = Inr A \<and> normalized_from Omega A)"
      by (rule guard)
  qed
qed

lemma quiet_two_samples: "float_mul (fl quiet_lab) 1 2 = Some 2"
  by (simp add: float_mul_def quiet_lab_def overflow_threshold_def)

theorem generate_rabi_normalizes_witness:
  "\<exists>t P S.
     linspace 0 1 (py_trunc 2) = Inr t
   \<and> generate_rabi quiet_lab 1 ''standard'' 2 ''.'' fresh =
       (Inr (''standard_'' @ fmt_float0 1 (float_mul (fl quiet_lab) 1 1000) @ ''ns''),
        export_to_csv quiet_lab S ''.''
          (''standard_'' @ fmt_float0 1 (float_mul (fl quiet_lab) 1 1000) @ ''ns'' @ ''_stokes.csv'')
          (export_to_csv quiet_lab P ''.''
             (''standard_'' @ fmt_float0 1 (float_mul (fl quiet_lab) 1 1000) @ ''ns'' @ ''_pump.csv'')
             fresh))
   \<and> P = map (\<lambda>x. x / Max (abs ` set (map (\<lambda>ti. pump2 ti 1) t))) (map (\<lambda>ti. pump2 ti 1) t)
   \<and> S = map (\<lambda>x. x / Max (abs ` set (map (\<lambda>ti. stokes2 ti 1) t))) (map (\<lambda>ti. stokes2 ti 1) t)
   \<and> Max (abs ` set P) = 1 \<and> Max (abs ` set S) = 1
   \<and> Max (abs ` set (rescale P)) = 1 \<and> Max (abs ` set (rescale S)) = 1"
proof -
  have n: "1 \<le> py_trunc 2" by (simp add: py_trunc_def)
  from generate_rabi_normalizes [OF quiet_two_samples n, of "''.''" fresh]
  obtain t P S where r:
    "linspace 0 1 (py_trunc 2) = Inr t"
    "generate_rabi quiet_lab 1 ''standard'' 2 ''.'' fresh =
       (Inr (''standard_'' @ fmt_float0 1 (float_mul (fl quiet_lab) 1 1000) @ ''ns''),
        export_to_csv quiet_lab S ''.''
          (''standard_'' @ fmt_float0 1 (float_mul (fl quiet_lab) 1 1000) @ ''ns'' @ ''_stokes.csv'')
          (export_to_csv quiet_lab P ''.''
             (''standard_'' @ fmt_float0 1 (float_mul (fl quiet_lab) 1 1000) @ ''ns'' @ ''_pump.csv'')
             fresh))"
    "normalized_from (map (\<lambda>ti. pump2 ti 1) t) P"
    "normalized_from (map (\<lambda>ti. stokes2 ti 1) t) S"
    "written_peak (map (\<lambda>ti. pump2 ti 1) t) (rescale P)"
    "written_peak (map (\<lambda>ti. stokes2 ti 1) t) (rescale S)"
    by blast
  have "t \<noteq> []" using r(1) by (auto simp: linspace_def py_trunc_def)
  then obtain t0 where t0: "t0 \<in> set t" by (cases t) auto
  have np: "\<not> (\<forall>x \<in> set (map (\<lambda>ti. pump2 ti 1) t). x = 0)"
    using t0 pump2_pos [of t0 1] by force
  have ns: "\<not> (\<forall>x \<in> set (map (\<lambda>ti. stokes2 ti 1) t). x = 0)"
    using t0 stokes2_pos [of t0 1] by force
  show ?thesis
  proof (intro exI conjI)
    show "linspace 0 1 (py_trunc 2) = Inr t" by (rule r(1))
    show "generate_rabi quiet_lab 1 ''standard'' 2 ''.'' fresh =
       (Inr (''standard_'' @ fmt_float0 1 (float_mul (fl quiet_lab) 1 1000) @ ''ns''),
        export_to_csv quiet_lab S ''.''
          (''standard_'' @ fmt_float0 1 (float_mul (fl quiet_lab) 1 1000) @ ''ns'' @ ''_stokes.csv'')
          (export_to_csv quiet_lab P ''.''
             (''standard_'' @ fmt_float0 1 (float_mul (fl quiet_lab) 1 1000) @ ''ns'' @ ''_pump.csv'')
             fresh))"
      by (rule r(2))
    show "P = map (\<lambda>x. x / Max (abs ` set (map (\<lambda>ti. pump2 ti 1) t))) (map (\<lambda>ti. pump2 ti 1) t)"
      using r(3) unfolding normalized_from_def if_not_P [OF np] by blast
    show "S = map (\<lambda>x. x / Max (abs ` set (map (\<lambda>ti. stokes2 ti 1) t))) (map (\<lambda>ti. stokes2 ti 1) t)"
      using r(4) unfolding normalized_from_def if_not_P [OF ns] by blast
    show "Max (abs ` set P) = 1"
      using r(3) unfolding normalized_from_def if_not_P [OF np] by blast
    show "Max (abs ` set S) = 1"
      using r(4) unfolding normalized_from_def if_not_P [OF ns] by blast
    show "Max (abs ` set (rescale P)) = 1"
      using r(5) unfolding written_peak_def if_not_P [OF np] .
    show "Max (abs ` set (rescale S)) = 1"
      using r(6) unfolding written_peak_def if_not_P [OF ns] .
  qed
qed

section \<open>Unsupported pulse shapes\<close>

text \<open>
  Claim C9, as the code has it. For every shape other than \<open>standard\<close>, \<open>generate_rabi\<close>
  raises and leaves the world as it was: no file has been opened or written. The
  exception is \<open>ValueError\<close>, unless the double product \<open>T * sample_rate\<close> is infinite:
  then \<open>int\<close> raises \<open>OverflowError\<close> before the shape is looked at.
\<close>

theorem generate_rabi_rejects_shape:
  assumes "shape \<noteq> ''standard''"
  shows "\<exists>e. generate_rabi env T shape sample_rate output_dir w = (Inl e, w)
           \<and> (if float_mul (fl env) T sample_rate = None
               then e = OverflowError ''cannot convert float infinity to integer''
               else \<exists>m. e = ValueError m)"
proof (cases "float_mul (fl env) T sample_rate")
  case None
  then show ?thesis
    by (simp add: generate_rabi_def py_int_of_float_def and_then_def lift_def)
next
  case (Some p)
  then show ?thesis
    using assms
    by (simp add: generate_rabi_def py_int_of_float_def Let_def and_then_def lift_def raise_def
        linspace_def)
qed

theorem generate_rabi_rejects_shape_witness:
  "\<exists>m. generate_rabi quiet_lab 1 ''gaussian'' 1000 ''.'' fresh = (Inl (ValueError m), fresh)"
proof -
  have finite: "float_mul (fl quiet_lab) 1 1000 \<noteq> None"
    by (simp add: float_mul_def overflow_threshold_def)
  have "''gaussian'' \<noteq> ''standard''" by simp
  from generate_rabi_rejects_shape [OF this, of quiet_lab 1 1000 "''.''" fresh]
  show ?thesis unfolding if_not_P [OF finite] by blast
qed

text \<open>
  The claim as stated fails for a pulse length whose product with the sample rate
  overflows: with \<open>T = 1e308\<close> and the default sample rate the exception is
  \<open>OverflowError\<close>, not \<open>ValueError\<close>.
\<close>

theorem generate_rabi_overflow_counterexample:
  "generate_rabi quiet_lab (10 ^ 308) ''gaussian'' 1000 ''.'' fresh =
     (Inl (OverflowError ''cannot convert float infinity to integer''), fresh)
   \<and> (\<nexists>m. generate_rabi quiet_lab (10 ^ 308) ''gaussian'' 1000 ''.'' fresh
             = (Inl (ValueError m), fresh))"
proof -
  have "float_mul (fl quiet_lab) (10 ^ 308) 1000 = None"
    by (simp add: float_mul_def overflow_threshold_def)
  then have "generate_rabi quiet_lab (10 ^ 308) ''gaussian'' 1000 ''.'' fresh =
     (Inl (OverflowError ''cannot convert float infinity to integer''), fresh)"
    by (simp add: generate_rabi_def py_int_of_float_def and_then_def lift_def)
  then show ?thesis by simp
qed

section \<open>The exported waveform file\<close>

lemma file_at_store [simp]: "file_at (store p c w) p = Some c"
  by (simp add: file_at_def store_def)

lemma store_store [simp]: "store p c (store p c' w) = store p c w"
  by (simp add: store_def)

lemma sent_store [simp]: "sent (store p c w) = sent w"
  and stdout_store [simp]: "stdout (store p c w) = stdout w"
  and clock_reads_store [simp]: "clock_reads (store p c w) = clock_reads w"
  by (simp_all add: store_def)

lemma store_issue: "store p c (issue k w) = issue k (store p c w)"
  by (simp add: store_def issue_def)

lemma file_at_issue [simp]: "file_at (issue k w) p = file_at w p"
  by (simp add: file_at_def)

lemma concat_terminated:
  "xs \<noteq> [] \<Longrightarrow> concat (map (\<lambda>v. f v @ sep) xs) = join sep (map f xs) @ sep"
proof (induction xs)
  case Nil
  then show ?case by simp
next
  case (Cons x xs)
  then show ?case by (cases xs) simp_all
qed

lemma dec_digits_nonempty: "dec_digits n \<noteq> []"
  by (subst dec_digits.simps) simp

lemma digit_chars:
  "char_of (48::int) = CHR ''0''" "char_of (49::int) = CHR ''1''"
  "char_of (50::int) = CHR ''2''" "char_of (51::int) = CHR ''3''"
  "char_of (52::int) = CHR ''4''" "char_of (53::int) = CHR ''5''"
  "char_of (54::int) = CHR ''6''" "char_of (55::int) = CHR ''7''"
  "char_of (56::int) = CHR ''8''" "char_of (57::int) = CHR ''9''"
  by code_simp+

lemma digit_char_in:
  assumes "0 \<le> k" and "k < (10::int)"
  shows "char_of (48 + k) \<in> set ''0123456789''"
proof -
  from assms have "k = 0 \<or> k = 1 \<or> k = 2 \<or> k = 3 \<or> k = 4 \<or> k = 5 \<or> k = 6 \<or> k = 7
      \<or> k = 8 \<or> k = 9" by arith
  then show ?thesis by (elim disjE) (simp_all add: digit_chars)
qed

lemma dec_digits_chars: "0 \<le> n \<Longrightarrow> set (dec_digits n) \<subseteq> set ''0123456789''"
proof (induction n rule: dec_digits.induct)
  case (1 n)
  show ?case
  proof (cases "n < 10")
    case True
    then show ?thesis
      using digit_char_in [of n] "1.prems" by (subst dec_digits.simps) simp
  next
    case False
    have "set (dec_digits (n div 10)) \<subseteq> set ''0123456789''"
      using "1.IH" False "1.prems" by simp
    moreover have "char_of (48 + n mod 10) \<in> set ''0123456789''"
      by (rule digit_char_in) simp_all
    ultimately show ?thesis
      using False by (subst dec_digits.simps) simp
  qed
qed

lemma dec_digits_length: "0 \<le> n \<Longrightarrow> n < 10 ^ Suc d \<Longrightarrow> length (dec_digits n) \<le> Suc d"
proof (induction d arbitrary: n)
  case 0
  then show ?case by (subst dec_digits.simps) simp
next
  case (Suc d)
  show ?case
  proof (cases "n < 10")
    case True
    then show ?thesis by (subst dec_digits.simps) simp
  next
    case False
    have "n < 10 * 10 ^ Suc d" using Suc.prems(2) by simp
    then have "n div 10 < 10 ^ Suc d" by arith
    moreover have "0 \<le> n div 10" using Suc.prems(1) by simp
    ultimately have "length (dec_digits (n div 10)) \<le> Suc d" by (rule Suc.IH [rotated])
    then show ?thesis using False by (subst dec_digits.simps) simp
  qed
qed

lemma round_half_even_nonneg: "0 \<le> x \<Longrightarrow> 0 \<le> round_half_even x"
  by (simp add: round_half_even_def Let_def)

text \<open>
  A number in the format \<open>%.10f\<close>: an optional sign, decimal digits, a point and exactly
  ten more digits; neither a comma nor a line break occurs in it.
\<close>

lemma fmt_fixed_10_shape:
  "\<exists>sign whole frac. fmt_fixed 10 x = sign @ whole @ CHR ''.'' # frac
     \<and> (sign = [] \<or> sign = ''-'') \<and> whole \<noteq> [] \<and> length frac = 10
     \<and> set whole \<subseteq> set ''0123456789'' \<and> set frac \<subseteq> set ''0123456789''"
proof -
  let ?m = "round_half_even (\<bar>x\<bar> * 10 ^ 10)"
  let ?frac = "zero_pad 10 (dec_digits (?m mod 10 ^ 10))"
  have m: "0 \<le> ?m" by (rule round_half_even_nonneg) simp
  have len: "length (dec_digits (?m mod 10 ^ 10)) \<le> 10"
    using dec_digits_length [of "?m mod 10 ^ 10" 9] by simp
  have 1: "length ?frac = 10" using len by (simp add: zero_pad_def)
  have 2: "set ?frac \<subseteq> set ''0123456789''"
    using dec_digits_chars [of "?m mod 10 ^ 10"] by (auto simp: zero_pad_def)
  have 3: "set (dec_digits (?m div 10 ^ 10)) \<subseteq> set ''0123456789''"
    using m by (intro dec_digits_chars) (simp add: pos_imp_zdiv_nonneg_iff)
  have 4: "fmt_fixed 10 x =
      (if x < 0 then ''-'' else []) @ dec_digits (?m div 10 ^ 10) @ CHR ''.'' # ?frac"
    by (simp add: fmt_fixed_def Let_def)
  show ?thesis
  proof (intro exI conjI)
    show "fmt_fixed 10 x =
      (if x < 0 then ''-'' else []) @ dec_digits (?m div 10 ^ 10) @ CHR ''.'' # ?frac"
      by (rule 4)
    show "(if x < 0 then ''-'' else []) = [] \<or> (if x < 0 then ''-'' else []) = ''-''"
      by simp
    show "dec_digits (?m div 10 ^ 10) \<noteq> []" by (rule dec_digits_nonempty)
    show "length ?frac = 10" by (rule 1)
    show "set (dec_digits (?m div 10 ^ 10)) \<subseteq> set ''0123456789''" by (rule 3)
    show "set ?frac \<subseteq> set ''0123456789''" by (rule 2)
  qed
qed

lemma fmt_fixed_10_chars: "set (fmt_fixed 10 x) \<subseteq> set ''0123456789-.''"
proof -
  from fmt_fixed_10_shape [of x] obtain sign whole frac where
    eq: "fmt_fixed 10 x = sign @ whole @ CHR ''.'' # frac" and sign: "sign = [] \<or> sign = ''-''"
    and whole: "set whole \<subseteq> set ''0123456789''" and frac: "set frac \<subseteq> set ''0123456789''"
    by blast
  have a: "set ''0123456789'' \<subseteq> set ''0123456789-.''" by simp
  have b: "set sign \<subseteq> set ''0123456789-.''" using sign by auto
  have c: "CHR ''.'' \<in> set ''0123456789-.''" by simp
  have "set (sign @ whole @ CHR ''.'' # frac) = set sign \<union> set whole \<union> {CHR ''.''} \<union> set frac"
    by auto
  then show ?thesis
    unfolding eq using a b c whole frac by blast
qed

lemma set_join: "set (join sep xs) \<subseteq> set sep \<union> \<Union> (set ` set xs)"
  by (induction sep xs rule: join.induct) auto

text \<open>
  For an array with at least one element, and when the three openings of the file
  succeed, \<open>export_to_csv\<close> leaves the formatted elements of the rescaled array, separated by
  commas and ended by one line break, and reports success.
\<close>

lemma export_to_csv_nonempty:
  assumes "array \<noteq> []"
    and "ctl_error env (sent w @ [OpenFile (filepath @ ''/'' @ filename) ''w'']) = None"
    and "ctl_error env (sent w @ [OpenFile (filepath @ ''/'' @ filename) ''w'',
            OpenFile (filepath @ ''/'' @ filename) ''r+'']) = None"
    and "ctl_error env (sent w @ [OpenFile (filepath @ ''/'' @ filename) ''w'',
            OpenFile (filepath @ ''/'' @ filename) ''r+'',
            OpenFile (filepath @ ''/'' @ filename) ''a'']) = None"
  shows "export_to_csv env array filepath filename w =
           (store (filepath @ ''/'' @ filename)
              (Text (join '','' (map (fmt_fixed 10) (rescale array)) @ [CHR 0x0A])) w)
             \<lparr>sent := sent w @ [OpenFile (filepath @ ''/'' @ filename) ''w'',
                 OpenFile (filepath @ ''/'' @ filename) ''r+'',
                 OpenFile (filepath @ ''/'' @ filename) ''a''],
              stdout := stdout w @
                 [''Data successfully exported to '' @ filepath @ ''/'' @ filename]\<rparr>"
proof -
  let ?p = "filepath @ ''/'' @ filename"
  let ?line = "join '','' (map (fmt_fixed 10) (rescale array))"
  have ne: "rescale array \<noteq> []" using assms(1) by (simp add: rescale_def)
  have written: "concat (map (\<lambda>v. fmt_fixed 10 v @ '','') (rescale array)) = ?line @ '',''"
    by (rule concat_terminated [OF ne])
  show ?thesis
    using assms(2-4)
    by (simp add: export_to_csv_def Let_def savetxt_def remove_trailing_comma_def
        append_newline_def and_then_def checked_def control_eq say_def written
        py_print_def store_def issue_def file_at_def)
qed

lemma exported_line_is_clean:
  "CHR '','' \<notin> set (fmt_fixed 10 x)"
  and "CHR 0x0A \<notin> set (join '','' (map (fmt_fixed 10) xs))"
proof -
  show "CHR '','' \<notin> set (fmt_fixed 10 x)"
    using fmt_fixed_10_chars [of x] by auto
  have "set (join '','' (map (fmt_fixed 10) xs)) \<subseteq> set '','' \<union> set ''0123456789-.''"
    using set_join [of "'',''" "map (fmt_fixed 10) xs"] fmt_fixed_10_chars by fastforce
  then show "CHR 0x0A \<notin> set (join '','' (map (fmt_fixed 10) xs))" by auto
qed

text \<open>
  Claim C6 on the empty array. \<open>np.savetxt\<close> writes nothing, the seek to one character
  before the end of the empty file raises \<open>ValueError\<close>, and the handler prints it: the
  file is left empty, without the line break, and the newline is never appended.
\<close>

theorem export_to_csv_empty_array:
  "export_to_csv quiet_lab [] ''out'' ''pump.csv'' fresh =
     \<lparr>sent = [OpenFile ''out/pump.csv'' ''w'', OpenFile ''out/pump.csv'' ''r+''],
      stdout = [''Error exporting data to out/pump.csv: negative seek position -1''],
      clock_reads = 0,
      files = [(''out/pump.csv'', Text [])]\<rparr>"
  by (simp add: export_to_csv_def Let_def savetxt_def remove_trailing_comma_def
      and_then_def checked_def control_eq rescale_def quiet_lab_def fresh_def exn_text_def
      py_print_def store_def issue_def file_at_def)

lemma export_to_csv_example:
  "file_at (export_to_csv quiet_lab [1, - 1 / 2, 1 / 10 ^ 10, 1 / 2048] ''out'' ''pump.csv'' fresh)
     ''out/pump.csv''
   = Some (Text (''1.0000000000,-0.5000000000,0.0000000000,0.0004882812'' @ [CHR 0x0A]))"
  by code_simp

section \<open>The calibration sweep\<close>

lemma sweep_rows:
  assumes "steady hw" and "0 \<le> delay"
  shows "\<exists>rows w'. sweep env hw delay vs data w = (Inr (data @ rows), w')
           \<and> map fst rows = vs"
proof (induction vs arbitrary: data w)
  case Nil
  then show ?case by (simp add: ok_def)
next
  case (Cons v vs)
  let ?w0 = "py_print (''Setting voltage to '' @ fmt_fixed 3 v @ '' V'') w"
  from assms(1) obtain w1 where s1: "set_voltage hw v ?w0 = (Inr (), w1)"
    unfolding steady_def by blast
  from assms(1) obtain w2 where s2: "flip hw ''up'' w1 = (Inr (), w2)"
    unfolding steady_def by blast
  from assms(1) obtain p1 w3 where s3: "read_power_flip hw w2 = (Inr p1, w3)"
    unfolding steady_def by blast
  from assms(1) obtain w4 where s4: "flip hw ''down'' w3 = (Inr (), w4)"
    unfolding steady_def by blast
  from assms(1) obtain p2 w5 where s5: "read_power_target hw w4 = (Inr p2, w5)"
    unfolding steady_def by blast
  obtain ts w6 where s6: "perf_counter env w5 = (ts, w6)" by (cases "perf_counter env w5")
  from Cons.IH [of "data @ [(v, p1, p2, ts)]" w6] obtain rows w' where
    rest: "sweep env hw delay vs (data @ [(v, p1, p2, ts)]) w6
             = (Inr ((data @ [(v, p1, p2, ts)]) @ rows), w')" "map fst rows = vs"
    by blast
  have "sweep env hw delay (v # vs) data w = (Inr (data @ (v, p1, p2, ts) # rows), w')"
    using s1 s2 s3 s4 s5 s6 rest(1) assms(2)
    by (simp add: and_then_def say_def checked_def time_sleep_def time_time_def)
  then show ?case using rest(2) by (intro exI [of _ "(v, p1, p2, ts) # rows"]) simp
qed

lemma sweeps_rows:
  assumes "steady hw" and "0 \<le> delay"
  shows "\<exists>rows w'. sweeps env hw delay k (Sequence vs) data w = (Inr (data @ rows), w')
           \<and> map fst rows = concat (replicate k vs)"
proof (induction k arbitrary: data w)
  case 0
  then show ?case by (simp add: ok_def)
next
  case (Suc k)
  from sweep_rows [OF assms, of env vs data w] obtain rows1 w1 where
    one: "sweep env hw delay vs data w = (Inr (data @ rows1), w1)" "map fst rows1 = vs"
    by blast
  from Suc.IH [of "data @ rows1" w1] obtain rows2 w2 where
    more: "sweeps env hw delay k (Sequence vs) (data @ rows1) w1
             = (Inr ((data @ rows1) @ rows2), w2)" "map fst rows2 = concat (replicate k vs)"
    by blast
  have "sweeps env hw delay (Suc k) (Sequence vs) data w = (Inr (data @ rows1 @ rows2), w2)"
    using one(1) more(1) by (simp add: and_then_def)
  then show ?case using one(2) more(2) by (intro exI [of _ "rows1 @ rows2"]) simp
qed

lemma columns_measurement_frame:
  "map fst (measurement_frame data) = [''voltage'', ''power_flip'', ''power_target'', ''timestamp'']"
  by (simp add: measurement_frame_def)

lemma voltage_column:
  "map_of (measurement_frame data) ''voltage'' = Some (map fst data)"
  by (simp add: measurement_frame_def case_prod_beta)

lemma lengths_measurement_frame:
  "\<forall>c \<in> set (measurement_frame data). length (snd c) = length data"
  by (simp add: measurement_frame_def)

text \<open>
  On a sequence of voltages (a list or an array), with callables that return, a delay that
  is not negative and a file that can be opened, \<open>measure_loop\<close> writes the four columns
  with one row for every voltage of every repeat, in sweep order.
\<close>

lemma measure_loop_sequence:
  assumes "steady hw" and "0 \<le> delay" and "\<forall>h. ctl_error env h = None"
  shows "\<exists>data w'. measure_loop env output_csv hw (Sequence vs) repeats delay w = (Inr (), w')
           \<and> file_at w' output_csv = Some (Csv (measurement_frame data))
           \<and> map fst data = concat (replicate (nat repeats) vs)
           \<and> length data = nat repeats * length vs"
proof -
  from sweeps_rows [OF assms(1,2), of env "nat repeats" vs "[]" w] obtain data w1 where
    rows: "sweeps env hw delay (nat repeats) (Sequence vs) [] w = (Inr data, w1)"
      "map fst data = concat (replicate (nat repeats) vs)"
    by auto
  let ?w' = "py_print (''Saved '' @ str_int (int (length data)) @ '' measurements to '' @ output_csv)
              (store output_csv (Csv (measurement_frame data)) (issue (OpenFile output_csv ''w'') w1))"
  have run: "measure_loop env output_csv hw (Sequence vs) repeats delay w = (Inr (), ?w')"
    using rows(1) assms(3)
    by (simp add: measure_loop_def and_then_def checked_def control_eq say_def)
  have saved: "file_at ?w' output_csv = Some (Csv (measurement_frame data))"
    by (simp add: file_at_def py_print_def store_def)
  have "length (concat (replicate k vs)) = k * length vs" for k
    by (induction k) simp_all
  then have "length (map fst data) = nat repeats * length vs"
    unfolding rows(2) by simp
  then have "length data = nat repeats * length vs" by simp
  then show ?thesis using run saved rows(2) by blast
qed

text \<open>
  Claim C5 on a one-shot iterator. With \<open>repeats = 2\<close> and a generator that yields the
  voltages 1 and 2, the first sweep uses the generator up and the second sweep has nothing
  to iterate: the file has two data rows, not four.
\<close>

theorem measure_loop_generator_once:
  "measure_loop quiet_lab ''calib.csv'' bench (Iterator [1, 2]) 2 0 fresh =
     (Inr (),
      \<lparr>sent = [OpenFile ''calib.csv'' ''w''],
       stdout = [''Setting voltage to 1.000 V'', ''Setting voltage to 2.000 V'',
                 ''Saved 2 measurements to calib.csv''],
       clock_reads = 2,
       files = [(''calib.csv'',
                 Csv [(''voltage'', [1, 2]), (''power_flip'', [2, 2]),
                      (''power_target'', [3, 3]), (''timestamp'', [0, 1 / 2])])]\<rparr>)"
  by code_simp

lemma measure_loop_list_twice:
  "measure_loop quiet_lab ''calib.csv'' bench (Sequence [1, 2]) 2 0 fresh =
     (Inr (),
      \<lparr>sent = [OpenFile ''calib.csv'' ''w''],
       stdout = [''Setting voltage to 1.000 V'', ''Setting voltage to 2.000 V'',
                 ''Setting voltage to 1.000 V'', ''Setting voltage to 2.000 V'',
                 ''Saved 4 measurements to calib.csv''],
       clock_reads = 4,
       files = [(''calib.csv'',
                 Csv [(''voltage'', [1, 2, 1, 2]), (''power_flip'', [2, 2, 2, 2]),
                      (''power_target'', [3, 3, 3, 3]), (''timestamp'', [0, 1 / 2, 1, 3 / 2])])]\<rparr>)"
  by code_simp

lemma bench_steady: "steady bench"
  by (simp add: steady_def bench_def ok_def)

section \<open>The calibration fit\<close>







text \<open>A cell that is empty, or holds text, makes the call raise.\<close>

lemma fit_and_interpolate_blank_cell:
  assumes "read_csv env calib_csv w
             = (Inr [(''power1'', [Num 1, Blank, Num 3]), (''power2'', [Num 3, Num 5, Num 7])], w1)"
  shows "fit_and_interpolate env calib_csv out_png w
           = (Inl (OtherError ''LinAlgError: SVD did not converge in Linear Least Squares''), w1)"
  using assms
  by (simp add: fit_and_interpolate_def and_then_def lift_def power_columns_def column_def
      polyfit1_def finite_array_def)

lemma fit_and_interpolate_text_cell:
  assumes "read_csv env calib_csv w
             = (Inr [(''power1'', [Num 1, Word ''n/a'', Num 3]),
                     (''power2'', [Num 3, Num 5, Num 7])], w1)"
  shows "fit_and_interpolate env calib_csv out_png w
           = (Inl (ValueError ''could not convert string to float: n/a''), w1)"
  using assms
  by (simp add: fit_and_interpolate_def and_then_def lift_def power_columns_def column_def)




section \<open>Recovering a known line\<close>

lemma squared_error_line:
  "squared_error x (map (\<lambda>xi. a * xi + b) x) ab
     = sum_list (map (\<lambda>xi. ((a * xi + b) - (fst ab * xi + snd ab)) ^ 2) x)"
  by (induction x) (simp_all add: squared_error_def)

lemma squared_error_exact: "squared_error x (map (\<lambda>xi. a * xi + b) x) (a, b) = 0"
  by (simp add: squared_error_line)




text \<open>
  In doubles the claim as stated fails: what \<open>fit_info\<close> holds is a double, an integer
  divided by a power of two, and one third is none. On the two rows \<open>(0, 0)\<close> and \<open>(3, 1)\<close>,
  which lie on the line \<open>y = x / 3\<close>, the slope returned is a double next to one third
  and not one third.
\<close>

lemma dyadic_not_third:
  assumes "dyadic a"
  shows "a \<noteq> 1 / 3"
proof
  assume third: "a = 1 / 3"
  from assms obtain m :: int and k :: nat where "a = of_int m / 2 ^ k"
    unfolding dyadic_def by blast
  with third have "(of_int m :: real) * 3 = 2 ^ k" by (simp add: field_simps)
  then have "(of_int (m * 3) :: real) = of_int (2 ^ k)" by simp
  then have eq: "m * 3 = 2 ^ k" by (simp only: of_int_eq_iff)
  then have d: "(3::int) dvd 2 ^ k" by (metis dvd_triv_right)
  have "coprime (3::int) (2 ^ k)" by (simp add: coprime_power_right_iff)
  then have "is_unit (3::int)" using coprime_absorb_left [OF d] by simp
  then show False by simp
qed

lemma fit_misses_one_third:
  assumes "dyadic (fst (lstsq env [0, 3] [0, 1]))"
    and "fit_and_interpolate env calib_csv out_png w = (Inr (predict, fit_info), w')"
    and "read_csv env calib_csv w = (Inr [(''power1'', [Num 0, Num 3]), (''power2'', [Num 0, Num 1])], w1)"
  shows "map_of fit_info ''a'' \<noteq> Some (PyFloat (1 / 3))"
proof -
  obtain a b where ab: "lstsq env [0, 3] [0, 1] = (a, b)" by (cases "lstsq env [0, 3] [0, 1]")
  then have "a \<noteq> 1 / 3" using assms(1) dyadic_not_third by fastforce
  moreover have "map_of fit_info ''a'' = Some (PyFloat a)"
    using assms(2,3) ab
    by (auto simp: fit_and_interpolate_def and_then_def lift_def power_columns_def column_def
        polyfit1_def finite_array_def Let_def ok_def checked_def control_eq
        split: option.splits if_splits)
  ultimately show ?thesis by simp
qed


end
